theory Spec2Isabelle
  imports Complex_Main
begin

section \<open>HRMS: leave decisions, status reconciliation and attendance counts\<close>

text \<open>
  A shallow embedding of the three request handlers of the HRMS backend that read or
  write the leave and attendance tables:
  \<^item> \<open>leave_detail\<close> of \<open>routes/leaves.py\<close> (GET and PATCH of one leave request),
  \<^item> \<open>list_employees\<close> of \<open>routes/hr.py\<close> (the listing that also repairs
    \<open>Employee.status\<close>),
  \<^item> \<open>get_attendance\<close> of \<open>routes/hr.py\<close> (today's attendance with rolling counts).

  The database is an explicit state, a record of tables; a table is the list of its rows.
  A handler takes the request and the state and returns its response and the state that
  is persisted when it returns. Rows carry the columns the handlers read or write and
  their keys; nullable columns are \<open>option\<close>s. Dates are day ordinals (as
  \<open>date.toordinal()\<close>), timestamps are integers, \<open>Numeric\<close> columns are rationals, and
  strings are lists of characters with code points below 256. The values of a JSON
  object are strings. A response carries the fields that are computed from the modelled columns;
  the display fields of the two views (names, departments, positions, formatted dates and
  times, the leave total) are left out.
\<close>

subsection \<open>Python string operations used by the handlers\<close>

definition py_isspace :: "char \<Rightarrow> bool" where
  \<comment> \<open>the characters \<open>str.strip()\<close> removes, among code points below 256\<close>
  "py_isspace c = (of_char c \<in> {9, 10, 11, 12, 13, 28, 29, 30, 31, 32, 133, 160 :: nat})"

definition py_strip :: "string \<Rightarrow> string" where
  "py_strip s = rev (dropWhile py_isspace (rev (dropWhile py_isspace s)))"

definition py_lower_char :: "char \<Rightarrow> char" where
  "py_lower_char c =
     (let n = (of_char c :: nat)
      in if (65 \<le> n \<and> n \<le> 90) \<or> (192 \<le> n \<and> n \<le> 222 \<and> n \<noteq> 215)
         then char_of (n + 32) else c)"

definition py_lower :: "string \<Rightarrow> string" where
  "py_lower s = map py_lower_char s"

definition py_replace :: "char \<Rightarrow> char \<Rightarrow> string \<Rightarrow> string" where
  \<comment> \<open>\<open>s.replace(a, b)\<close> for one-character \<open>a\<close> and \<open>b\<close>\<close>
  "py_replace a b s = map (\<lambda>c. if c = a then b else c) s"

definition truthy :: "string option \<Rightarrow> bool" where
  \<comment> \<open>Python truth of a value that is \<open>None\<close> or a string\<close>
  "truthy v = (case v of None \<Rightarrow> False | Some s \<Rightarrow> s \<noteq> [])"

definition py_str :: "string option \<Rightarrow> string" where
  \<comment> \<open>\<open>str(v)\<close> of a value that is \<open>None\<close> or a string\<close>
  "py_str v = (case v of None \<Rightarrow> ''None'' | Some s \<Rightarrow> s)"

definition py_or :: "string option \<Rightarrow> string option \<Rightarrow> string option" where
  \<comment> \<open>\<open>a or b\<close>\<close>
  "py_or a b = (if truthy a then a else b)"

subsection \<open>Tables (\<open>models.py\<close>)\<close>

type_synonym date = int
type_synonym datetime = int

record Employee =
  e_id :: int
  e_employee_code :: string
  e_status :: "string option"
  e_updated_at :: "datetime option"

record LeaveRequest =
  lr_id :: int
  lr_employee_id :: int
  lr_leave_type_id :: int
  lr_start_date :: date
  lr_end_date :: date
  lr_total_days :: rat
  lr_status :: "string option"
  lr_approved_by :: "int option"
  lr_approved_at :: "datetime option"
  lr_rejection_reason :: "string option"
  lr_updated_at :: "datetime option"

record LeaveBalance =
  lb_id :: int
  lb_employee_id :: int
  lb_leave_type_id :: int
  lb_year :: int
  lb_total_allocated :: "rat option"
  lb_used :: "rat option"
  lb_pending :: "rat option"
  lb_balance :: "rat option"

record Attendance =
  a_id :: int
  a_employee_id :: int
  a_date :: date
  a_status :: string
  a_is_late :: "bool option"
  a_is_early_leave :: "bool option"

record db =
  employees :: "Employee list"
  leave_requests :: "LeaveRequest list"
  leave_balances :: "LeaveBalance list"
  attendance :: "Attendance list"

text \<open>
  \<open>Model.query.get(k)\<close> is the row whose primary key is \<open>k\<close>, or \<open>None\<close>. Assigning to
  an attribute of that object replaces the row in its table. Primary keys are unique in
  a table; in a list, the first row with the key is the row of that key.
\<close>

definition get_row :: "('a \<Rightarrow> int) \<Rightarrow> int \<Rightarrow> 'a list \<Rightarrow> 'a option" where
  "get_row key k rows = find (\<lambda>r. key r = k) rows"

fun put_row :: "('a \<Rightarrow> int) \<Rightarrow> 'a \<Rightarrow> 'a list \<Rightarrow> 'a list" where
  "put_row key r [] = []"
| "put_row key r (x # xs) = (if key x = key r then r # xs else x # put_row key r xs)"

text \<open>
  \<open>db.session.commit()\<close> writes the rows that differ from what was loaded. The
  \<open>updated_at\<close> columns of \<open>Employee\<close> and \<open>LeaveRequest\<close> are declared with
  \<open>onupdate=current_timestamp()\<close>, so each row that is written also gets the
  database's clock there; a row with no net change is not written at all.
\<close>

definition flush_rows :: "('a \<Rightarrow> 'a) \<Rightarrow> 'a list \<Rightarrow> 'a list \<Rightarrow> 'a list" where
  "flush_rows stamp olds news = map2 (\<lambda>old new. if new = old then old else stamp new) olds news"

definition commit :: "datetime \<Rightarrow> db \<Rightarrow> db \<Rightarrow> db" where
  "commit now s0 s1 =
     s1\<lparr>employees := flush_rows (\<lambda>e. e\<lparr>e_updated_at := Some now\<rparr>) (employees s0) (employees s1),
        leave_requests :=
          flush_rows (\<lambda>r. r\<lparr>lr_updated_at := Some now\<rparr>) (leave_requests s0) (leave_requests s1)\<rparr>"

subsection \<open>Requests and responses\<close>

text \<open>
  The route of \<open>leave_detail\<close> accepts GET and PATCH, and HEAD, which Flask adds to a
  route that accepts GET. The handler tests for GET and treats any other method as PATCH.
\<close>

datatype http_method = GET | HEAD | PATCH

text \<open>
  The two keys of the Flask session that the handlers read. \<open>None\<close> is a key that is
  absent; a key that is present holds an integer (\<open>user_id\<close>) or a string (\<open>role\<close>).
\<close>

record session =
  user_id :: "int option"
  role :: "string option"

text \<open>
  A database error (\<open>SQLAlchemyError\<close>) can be raised where \<open>leave_detail\<close> talks to the
  database inside its \<open>try\<close> block: loading the request, loading the employee, the
  commit, and, after the commit, reloading the request (the commit expires the object
  that the response reads). The request carries which of these calls fails, if any.
\<close>

datatype db_fault = NoFault | FailLoadRequest | FailLoadEmployee | FailCommit | FailReload

type_synonym json_obj = "string \<rightharpoonup> string"

text \<open>
  The parsed JSON body: an object, or an array (its length), a string, a number or a
  boolean. \<open>get_json(silent=True)\<close> is \<open>None\<close> for \<open>null\<close> and for a missing or
  unparsable body.
\<close>

datatype json_body = JObject json_obj | JArray nat | JString string | JNumber int | JBool bool

record request =
  req_method :: http_method
  get_json :: "json_body option"
  sess :: session
  utcnow :: datetime
  today :: date
  db_now :: datetime
  fault :: db_fault

record leave_view =
  lv_id :: int
  lv_employee_id :: int
  lv_status :: "string option"
  lv_approved_by :: "int option"
  lv_approved_at :: "datetime option"

record emp_view =
  ev_pk :: int
  ev_id :: string
  ev_status :: string

record att_view =
  av_id :: string
  av_status :: string
  av_lateArrivals :: nat
  av_earlyLeaves :: nat

datatype body =
    ErrorJ string
  | LeaveJ leave_view
  | EmployeesJ "emp_view list"
  | AttendanceJ "att_view list"

type_synonym response = "body \<times> nat"

datatype exn = NameError string | AttributeError string | OverflowError

subsection \<open>\<open>leave_detail\<close> (\<open>routes/leaves.py\<close>)\<close>

definition allowed_statuses :: "string list" where
  "allowed_statuses = [''approved'', ''rejected'', ''pending'']"

definition db_error :: "db \<Rightarrow> (exn + response) \<times> db" where
  \<comment> \<open>the \<open>except SQLAlchemyError\<close> branch: roll back, answer 500\<close>
  "db_error s0 = (Inr (ErrorJ ''Database error'', 500), s0)"

definition leave_json :: "LeaveRequest \<Rightarrow> body" where
  "leave_json lr =
     LeaveJ \<lparr>lv_id = lr_id lr, lv_employee_id = lr_employee_id lr, lv_status = lr_status lr,
             lv_approved_by = lr_approved_by lr, lv_approved_at = lr_approved_at lr\<rparr>"

definition finish :: "request \<Rightarrow> db \<Rightarrow> db \<Rightarrow> LeaveRequest \<Rightarrow> (exn + response) \<times> db" where
  \<comment> \<open>\<open>db.session.commit()\<close> and the 200 answer built from the reloaded request\<close>
  "finish rq s0 s1 lr =
     (if fault rq = FailCommit then db_error s0
      else if fault rq = FailReload then db_error (commit (db_now rq) s0 s1)
      else (Inr (leave_json lr, 200), commit (db_now rq) s0 s1))"

text \<open>
  The keys of a table are SQLite integers, below \<open>2 ^ 63\<close>. \<open>LeaveRequest.query.get\<close> of a
  greater id finds no row: binding the id raises \<open>OverflowError\<close>, which the handler's
  \<open>except SQLAlchemyError\<close> does not catch.
\<close>

definition patch_leave ::
  "request \<Rightarrow> json_obj \<Rightarrow> string \<Rightarrow> int \<Rightarrow> db \<Rightarrow> (exn + response) \<times> db" where
  \<comment> \<open>the \<open>try\<close> block of the PATCH branch\<close>
  "patch_leave rq data status leave_id s =
     (if fault rq = FailLoadRequest then db_error s
      else case get_row lr_id leave_id (leave_requests s) of
        None \<Rightarrow>
          if 2 ^ 63 \<le> leave_id then (Inl OverflowError, s)
          else (Inr (ErrorJ ''Leave request not found'', 404), s)
      | Some lr0 \<Rightarrow>
          let lr1 = lr0\<lparr>lr_status := Some status\<rparr> in
          if status = ''approved'' then
            let lr2 = lr1\<lparr>lr_approved_at := Some (utcnow rq),
                         lr_approved_by := user_id (sess rq)\<rparr>;
                s1 = s\<lparr>leave_requests := put_row lr_id lr2 (leave_requests s)\<rparr>
            in if fault rq = FailLoadEmployee then db_error s
               else (case get_row e_id (lr_employee_id lr2) (employees s1) of
                 None \<Rightarrow> finish rq s s1 lr2
               | Some emp \<Rightarrow>
                   finish rq s
                     (s1\<lparr>employees :=
                            put_row e_id (emp\<lparr>e_status := Some ''on-leave''\<rparr>) (employees s1)\<rparr>)
                     lr2)
          else if status = ''rejected'' then
            let lr2 = lr1\<lparr>lr_rejection_reason :=
                           py_or (data ''rejection_reason'') (lr_rejection_reason lr1)\<rparr>
            in finish rq s (s\<lparr>leave_requests := put_row lr_id lr2 (leave_requests s)\<rparr>) lr2
          else finish rq s (s\<lparr>leave_requests := put_row lr_id lr1 (leave_requests s)\<rparr>) lr1)"

definition data_is_dict :: "request \<Rightarrow> bool" where
  \<comment> \<open>whether \<open>request.get_json(silent=True) or {}\<close> is a dict: the body is an object, or falsy\<close>
  "data_is_dict rq =
     (case get_json rq of
        None \<Rightarrow> True
      | Some (JObject d) \<Rightarrow> True
      | Some (JArray n) \<Rightarrow> n = 0
      | Some (JString x) \<Rightarrow> x = []
      | Some (JNumber i) \<Rightarrow> i = 0
      | Some (JBool b) \<Rightarrow> \<not> b)"

definition request_data :: "request \<Rightarrow> json_obj" where
  \<comment> \<open>\<open>request.get_json(silent=True) or {}\<close>, where it is a dict\<close>
  "request_data rq = (case get_json rq of Some (JObject d) \<Rightarrow> d | _ \<Rightarrow> Map.empty)"

definition invalid_status :: response where
  "invalid_status =
     (ErrorJ ''Invalid or missing status. Allowed: approved, rejected, pending'', 400)"

definition leave_detail :: "request \<Rightarrow> int \<Rightarrow> db \<Rightarrow> (exn + response) \<times> db" where
  "leave_detail rq leave_id s =
     (if req_method rq = GET then
        \<comment> \<open>\<open>text\<close> is not bound in the module: evaluating the call's argument raises\<close>
        (Inl (NameError ''text''), s)
      else if \<not> data_is_dict rq then
        \<comment> \<open>\<open>data.get\<close> on a list, a string, a number or a boolean\<close>
        (Inl (AttributeError ''get''), s)
      else
        let data = request_data rq;
            status = data ''status''
        in if \<not> truthy status \<or> py_lower (py_strip (py_str status)) \<notin> set allowed_statuses
           then (Inr invalid_status, s)
           else
             let status = py_lower (py_strip (py_str status))
             in patch_leave rq data status leave_id s)"

text \<open>A sequence of calls of \<open>leave_detail\<close>, each on the state the previous one left.\<close>

fun run_leave_detail :: "(request \<times> int) list \<Rightarrow> db \<Rightarrow> db" where
  "run_leave_detail [] s = s"
| "run_leave_detail ((rq, leave_id) # calls) s =
     run_leave_detail calls (snd (leave_detail rq leave_id s))"

definition status_code :: "exn + response \<Rightarrow> nat option" where
  \<comment> \<open>the HTTP status of an outcome that is a response\<close>
  "status_code r = (case r of Inl e \<Rightarrow> None | Inr (b, code) \<Rightarrow> Some code)"

subsection \<open>\<open>list_employees\<close> (\<open>routes/hr.py\<close>)\<close>

definition hr_required :: "session \<Rightarrow> bool" where
  "hr_required ss =
     (user_id ss \<noteq> None \<and> py_lower (case role ss of None \<Rightarrow> [] | Some r \<Rightarrow> r) = ''hr'')"

definition unauthorized :: response where
  "unauthorized = (ErrorJ ''Unauthorized'', 401)"

definition on_leave_ids :: "date \<Rightarrow> LeaveRequest list \<Rightarrow> int set" where
  \<comment> \<open>the employee ids of the approved requests whose range holds the day\<close>
  "on_leave_ids d lrs =
     set (map lr_employee_id
            (filter (\<lambda>lr. lr_status lr = Some ''approved'' \<and> lr_start_date lr \<le> d \<and>
                          lr_end_date lr \<ge> d) lrs))"

definition status_out_of :: "string option \<Rightarrow> string" where
  \<comment> \<open>\<open>(e.status or 'active').lower().replace(' ', '-')\<close>\<close>
  "status_out_of st =
     py_replace (CHR '' '') (CHR ''-'') (py_lower (py_str (py_or st (Some ''active''))))"

definition reconcile_row :: "int set \<Rightarrow> Employee \<Rightarrow> Employee \<times> bool \<times> string" where
  \<comment> \<open>one pass of the loop body: the row as left, whether it was assigned, \<open>status_out\<close>\<close>
  "reconcile_row ids e =
     (if e_id e \<in> ids then
        (if e_status e \<noteq> Some ''on-leave''
         then (e\<lparr>e_status := Some ''on-leave''\<rparr>, True, ''on-leave'')
         else (e, False, ''on-leave''))
      else
        (if e_status e = Some ''on-leave'' \<and> e_id e \<notin> ids
         then (e\<lparr>e_status := Some ''active''\<rparr>, True, status_out_of (e_status e))
         else (e, False, status_out_of (e_status e))))"

fun employees_loop ::
  "int set \<Rightarrow> Employee list \<Rightarrow> emp_view list \<Rightarrow> bool \<Rightarrow> emp_view list \<times> Employee list \<times> bool"
where
  "employees_loop ids [] out to_update = (out, [], to_update)"
| "employees_loop ids (e # es) out to_update =
     (case reconcile_row ids e of
        (e', assigned, status_out) \<Rightarrow>
          (case employees_loop ids es
                  (out @ [\<lparr>ev_pk = e_id e, ev_id = e_employee_code e, ev_status = status_out\<rparr>])
                  (to_update \<or> assigned) of
             (out', es', to_update') \<Rightarrow> (out', e' # es', to_update')))"

definition list_employees :: "request \<Rightarrow> db \<Rightarrow> response \<times> db" where
  "list_employees rq s =
     (if \<not> hr_required (sess rq) then (unauthorized, s)
      else
        case employees_loop (on_leave_ids (today rq) (leave_requests s)) (employees s) [] False of
          (out, es', to_update) \<Rightarrow>
            ((EmployeesJ out, 200),
             if to_update then commit (db_now rq) s (s\<lparr>employees := es'\<rparr>) else s))"

subsection \<open>\<open>get_attendance\<close> (\<open>routes/hr.py\<close>)\<close>

definition count_rows :: "('a \<Rightarrow> bool) \<Rightarrow> 'a list \<Rightarrow> nat" where
  \<comment> \<open>\<open>Model.query.filter(...).count()\<close>\<close>
  "count_rows p rows = length (filter p rows)"

fun attendance_loop :: "date \<Rightarrow> db \<Rightarrow> Attendance list \<Rightarrow> att_view list \<Rightarrow> att_view list" where
  "attendance_loop one_year_ago s [] out = out"
| "attendance_loop one_year_ago s (r # records) out =
     (case get_row e_id (a_employee_id r) (employees s) of
        None \<Rightarrow> attendance_loop one_year_ago s records out
      | Some emp \<Rightarrow>
          let late_count =
                count_rows (\<lambda>a. a_employee_id a = e_id emp \<and> a_date a \<ge> one_year_ago \<and>
                                a_is_late a = Some True) (attendance s);
              early_count =
                count_rows (\<lambda>a. a_employee_id a = e_id emp \<and> a_date a \<ge> one_year_ago \<and>
                                a_is_early_leave a = Some True) (attendance s)
          in attendance_loop one_year_ago s records
               (out @ [\<lparr>av_id = e_employee_code emp, av_status = a_status r,
                         av_lateArrivals = late_count, av_earlyLeaves = early_count\<rparr>]))"

definition get_attendance :: "request \<Rightarrow> db \<Rightarrow> response \<times> db" where
  "get_attendance rq s =
     (if \<not> hr_required (sess rq) then (unauthorized, s)
      else
        let records = filter (\<lambda>a. a_date a = today rq) (attendance s);
            one_year_ago = today rq - 365
        in ((AttendanceJ (attendance_loop one_year_ago s records []), 200), s))"

subsection \<open>The specification's words\<close>

text \<open>
  The definitions of this subsection are not taken from the code. They state what the
  specification says, so that the handlers can be compared with it.
\<close>

definition spec_balance_ok :: "LeaveBalance \<Rightarrow> bool" where
  \<comment> \<open>\<open>balance = total_allocated - used - pending\<close>, and \<open>used\<close>, \<open>pending\<close>, \<open>balance\<close> are not negative\<close>
  "spec_balance_ok b =
     (case (lb_total_allocated b, lb_used b, lb_pending b, lb_balance b) of
        (Some a, Some u, Some p, Some r) \<Rightarrow> r = a - u - p \<and> 0 \<le> u \<and> 0 \<le> p \<and> 0 \<le> r
      | _ \<Rightarrow> False)"

definition spec_commit :: "rat \<Rightarrow> LeaveBalance \<Rightarrow> LeaveBalance" where
  \<comment> \<open>the ledger's \<open>commit\<close>: on approval, \<open>days\<close> move from \<open>pending\<close> to \<open>used\<close>\<close>
  "spec_commit days b =
     b\<lparr>lb_used := map_option (\<lambda>u. u + days) (lb_used b),
       lb_pending := map_option (\<lambda>p. p - days) (lb_pending b)\<rparr>"

definition spec_release :: "rat \<Rightarrow> LeaveBalance \<Rightarrow> LeaveBalance" where
  \<comment> \<open>the ledger's \<open>release\<close>: on rejection, \<open>pending\<close> decreases by \<open>days\<close>\<close>
  "spec_release days b = b\<lparr>lb_pending := map_option (\<lambda>p. p - days) (lb_pending b)\<rparr>"

definition spec_decision_allowed :: "string option \<Rightarrow> bool" where
  \<comment> \<open>the supplied value, trimmed and in lower case, is approved, rejected or pending\<close>
  "spec_decision_allowed v =
     (case v of
        None \<Rightarrow> False
      | Some x \<Rightarrow> py_lower (py_strip x) \<in> {''approved'', ''rejected'', ''pending''})"

definition spec_covers :: "LeaveRequest \<Rightarrow> date \<Rightarrow> bool" where
  "spec_covers lr d = (lr_start_date lr \<le> d \<and> d \<le> lr_end_date lr)"

definition spec_is_on_leave :: "date \<Rightarrow> LeaveRequest list \<Rightarrow> int \<Rightarrow> bool" where
  \<comment> \<open>there is an approved request of the employee whose range holds the day\<close>
  "spec_is_on_leave d lrs eid =
     (\<exists>lr \<in> set lrs. lr_employee_id lr = eid \<and> lr_status lr = Some ''approved'' \<and>
                      spec_covers lr d)"

definition spec_reconcile :: "bool \<Rightarrow> string option \<Rightarrow> string option" where
  \<comment> \<open>the status \<open>reconcile\<close> leaves, from \<open>isOnLeave\<close> and the current status\<close>
  "spec_reconcile is_on_leave st =
     (if is_on_leave \<and> st \<noteq> Some ''on-leave'' then Some ''on-leave''
      else if \<not> is_on_leave \<and> st = Some ''on-leave'' then Some ''active''
      else st)"

definition spec_rows_since ::
  "date \<Rightarrow> int \<Rightarrow> (Attendance \<Rightarrow> bool option) \<Rightarrow> Attendance list \<Rightarrow> nat" where
  \<comment> \<open>the number of rows of the employee dated \<open>since\<close> or later whose flag is true\<close>
  "spec_rows_since since eid flag rows =
     card {i. i < length rows \<and> a_employee_id (rows ! i) = eid \<and> since \<le> a_date (rows ! i) \<and>
              flag (rows ! i) = Some True}"

definition spec_rows_in_window ::
  "date \<Rightarrow> date \<Rightarrow> int \<Rightarrow> (Attendance \<Rightarrow> bool option) \<Rightarrow> Attendance list \<Rightarrow> nat" where
  \<comment> \<open>the number of rows of the employee dated from \<open>lo\<close> to \<open>hi\<close> whose flag is true\<close>
  "spec_rows_in_window lo hi eid flag rows =
     card {i. i < length rows \<and> a_employee_id (rows ! i) = eid \<and> lo \<le> a_date (rows ! i) \<and>
              a_date (rows ! i) \<le> hi \<and> flag (rows ! i) = Some True}"

subsection \<open>Example data\<close>

text \<open>
  The scenario of the specification: an employee with 12 days of annual leave in 2024
  and a pending request of 3 days from 2024-06-10 (day 739047) to 2024-06-12; the
  requests are made on 2024-06-11 (day 739048) by an HR user.
\<close>

definition ex_emp :: Employee where
  "ex_emp = \<lparr>e_id = 1, e_employee_code = ''EMP001'', e_status = Some ''active'',
             e_updated_at = None\<rparr>"

definition ex_lr :: LeaveRequest where
  "ex_lr = \<lparr>lr_id = 1, lr_employee_id = 1, lr_leave_type_id = 1, lr_start_date = 739047,
            lr_end_date = 739049, lr_total_days = 3, lr_status = Some ''pending'',
            lr_approved_by = None, lr_approved_at = None, lr_rejection_reason = None,
            lr_updated_at = None\<rparr>"

definition ex_lb :: LeaveBalance where
  "ex_lb = \<lparr>lb_id = 1, lb_employee_id = 1, lb_leave_type_id = 1, lb_year = 2024,
            lb_total_allocated = Some 12, lb_used = Some 0, lb_pending = Some 3,
            lb_balance = Some 9\<rparr>"

definition ex_db :: db where
  "ex_db = \<lparr>employees = [ex_emp], leave_requests = [ex_lr], leave_balances = [ex_lb],
            attendance = []\<rparr>"

definition ex_hr :: session where
  "ex_hr = \<lparr>user_id = Some 7, role = Some ''HR''\<rparr>"

definition ex_get :: request where
  "ex_get = \<lparr>req_method = GET, get_json = None, sess = ex_hr, utcnow = 1000, today = 739048,
             db_now = 1001, fault = NoFault\<rparr>"

definition ex_patch :: "string \<Rightarrow> request" where
  "ex_patch v = ex_get\<lparr>req_method := PATCH, get_json := Some (JObject [''status'' \<mapsto> v])\<rparr>"

definition ex_reject :: request where
  "ex_reject =
     ex_get\<lparr>req_method := PATCH,
            get_json :=
              Some (JObject [''status'' \<mapsto> ''Rejected'',
                             ''rejection_reason'' \<mapsto> ''peak season''])\<rparr>"

definition ex_array_body :: request where
  \<comment> \<open>a PATCH whose JSON body is the array \<open>[1]\<close>\<close>
  "ex_array_body = ex_get\<lparr>req_method := PATCH, get_json := Some (JArray 1)\<rparr>"

definition ex_lr_approved :: LeaveRequest where
  "ex_lr_approved =
     ex_lr\<lparr>lr_status := Some ''approved'', lr_approved_by := Some 7, lr_approved_at := Some 900,
           lr_updated_at := Some 901\<rparr>"

definition ex_db_approved :: db where
  \<comment> \<open>the request already approved, the balance already committed\<close>
  "ex_db_approved =
     \<lparr>employees = [ex_emp\<lparr>e_status := Some ''on-leave''\<rparr>], leave_requests = [ex_lr_approved],
      leave_balances = [spec_commit 3 ex_lb], attendance = []\<rparr>"

definition ex_staff :: db where
  \<comment> \<open>three employees: one on approved leave today, one marked on leave with no request, one inactive\<close>
  "ex_staff =
     \<lparr>employees =
        [ex_emp,
         \<lparr>e_id = 2, e_employee_code = ''EMP002'', e_status = Some ''on-leave'', e_updated_at = None\<rparr>,
         \<lparr>e_id = 3, e_employee_code = ''EMP003'', e_status = Some ''inactive'', e_updated_at = None\<rparr>],
      leave_requests = [ex_lr_approved], leave_balances = [spec_commit 3 ex_lb], attendance = []\<rparr>"

definition ex_terminated :: db where
  \<comment> \<open>a terminated employee whose approved request holds 2024-06-11\<close>
  "ex_terminated =
     \<lparr>employees = [ex_emp\<lparr>e_status := Some ''terminated''\<rparr>], leave_requests = [ex_lr_approved],
      leave_balances = [spec_commit 3 ex_lb], attendance = []\<rparr>"

definition ex_attendance :: db where
  \<comment> \<open>a row of today, on time, and a row dated tomorrow that is late and leaves early\<close>
  "ex_attendance =
     ex_db\<lparr>attendance :=
             [\<lparr>a_id = 1, a_employee_id = 1, a_date = 739048, a_status = ''present'',
               a_is_late = Some False, a_is_early_leave = Some False\<rparr>,
              \<lparr>a_id = 2, a_employee_id = 1, a_date = 739049, a_status = ''present'',
               a_is_late = Some True, a_is_early_leave = Some True\<rparr>]\<rparr>"

section \<open>Properties\<close>

subsection \<open>Rows, flushes and commits\<close>

lemma get_row_key: "get_row key k rows = Some x \<Longrightarrow> key x = k"
  by (auto simp: get_row_def find_Some_iff)

lemma get_row_put_row:
  "get_row key k rows = Some x \<Longrightarrow> key r = k \<Longrightarrow> get_row key k (put_row key r rows) = Some r"
  by (induction rows) (auto simp: get_row_def split: if_splits)

lemma flush_rows_same: "flush_rows stamp rows rows = rows"
  by (induction rows) (simp_all add: flush_rows_def)

lemma flush_rows_Cons:
  "flush_rows stamp (a # olds) (b # news) =
     (if b = a then a else stamp b) # flush_rows stamp olds news"
  by (simp add: flush_rows_def)

lemma flush_rows_put_row:
  "get_row key (key r) rows = Some x \<Longrightarrow> key (stamp r) = key r \<Longrightarrow>
   flush_rows stamp rows (put_row key r rows) = put_row key (if r = x then x else stamp r) rows"
proof (induction rows)
  case Nil
  then show ?case by (simp add: get_row_def)
next
  case (Cons y ys)
  have k: "key (if r = x then x else stamp r) = key r"
    using Cons.prems(2) by simp
  show ?case
  proof (cases "key y = key r")
    case True
    with Cons.prems(1) have yx: "y = x" by (simp add: get_row_def)
    have "flush_rows stamp (y # ys) (put_row key r (y # ys)) =
            (if r = y then y else stamp r) # ys"
      using True by (simp add: flush_rows_Cons flush_rows_same)
    moreover have "put_row key (if r = x then x else stamp r) (y # ys) =
            (if r = x then x else stamp r) # ys"
      using True k by (simp del: if_split)
    ultimately show ?thesis unfolding yx by simp
  next
    case False
    with Cons.prems(1) have g: "get_row key (key r) ys = Some x" by (simp add: get_row_def)
    have "flush_rows stamp (y # ys) (put_row key r (y # ys)) =
            y # flush_rows stamp ys (put_row key r ys)"
      using False by (simp add: flush_rows_Cons)
    moreover have "put_row key (if r = x then x else stamp r) (y # ys) =
            y # put_row key (if r = x then x else stamp r) ys"
      using False k by (simp del: if_split)
    ultimately show ?thesis using Cons.IH [OF g Cons.prems(2)] by simp
  qed
qed

lemma strip_lower_nonempty:
  "py_lower (py_strip v) \<in> set allowed_statuses \<Longrightarrow> v \<noteq> []"
  by (auto simp: py_lower_def py_strip_def allowed_statuses_def)

lemma commit_leave_only:
  assumes "get_row lr_id (lr_id r) (leave_requests s) = Some x"
  shows "commit now s (s\<lparr>leave_requests := put_row lr_id r (leave_requests s)\<rparr>) =
         s\<lparr>leave_requests :=
              put_row lr_id (if r = x then x else r\<lparr>lr_updated_at := Some now\<rparr>) (leave_requests s)\<rparr>"
  using flush_rows_put_row [OF assms, of "\<lambda>r. r\<lparr>lr_updated_at := Some now\<rparr>"]
  by (simp add: commit_def flush_rows_same)

lemma commit_leave_employee:
  assumes "get_row lr_id (lr_id r) (leave_requests s) = Some x"
    and "get_row e_id (e_id e) (employees s) = Some y"
  shows "commit now s (s\<lparr>leave_requests := put_row lr_id r (leave_requests s),
                          employees := put_row e_id e (employees s)\<rparr>) =
         s\<lparr>leave_requests :=
              put_row lr_id (if r = x then x else r\<lparr>lr_updated_at := Some now\<rparr>) (leave_requests s),
            employees :=
              put_row e_id (if e = y then y else e\<lparr>e_updated_at := Some now\<rparr>) (employees s)\<rparr>"
  using flush_rows_put_row [OF assms(1), of "\<lambda>r. r\<lparr>lr_updated_at := Some now\<rparr>"]
    flush_rows_put_row [OF assms(2), of "\<lambda>e. e\<lparr>e_updated_at := Some now\<rparr>"]
  by (simp add: commit_def)

lemma patch_leave_pending:
  assumes "fault rq = NoFault" and "get_row lr_id leave_id (leave_requests s) = Some lr0"
    and "status \<noteq> ''approved''" and "status \<noteq> ''rejected''"
  shows "patch_leave rq data status leave_id s =
     (Inr (leave_json (lr0\<lparr>lr_status := Some status\<rparr>), 200),
      s\<lparr>leave_requests :=
           put_row lr_id
             (if lr0\<lparr>lr_status := Some status\<rparr> = lr0 then lr0
              else lr0\<lparr>lr_status := Some status, lr_updated_at := Some (db_now rq)\<rparr>)
             (leave_requests s)\<rparr>)"
proof -
  have k: "lr_id lr0 = leave_id" using assms(2) by (rule get_row_key)
  have g: "get_row lr_id (lr_id (lr0\<lparr>lr_status := Some status\<rparr>)) (leave_requests s) = Some lr0"
    using assms(2) k by simp
  show ?thesis
    using assms commit_leave_only [OF g, of "db_now rq"]
    by (simp add: patch_leave_def finish_def Let_def)
qed

lemma patch_leave_rejected:
  assumes "fault rq = NoFault" and "get_row lr_id leave_id (leave_requests s) = Some lr0"
  shows "patch_leave rq data ''rejected'' leave_id s =
     (let lr2 = lr0\<lparr>lr_status := Some ''rejected'',
                    lr_rejection_reason :=
                      py_or (data ''rejection_reason'') (lr_rejection_reason lr0)\<rparr>
      in (Inr (leave_json lr2, 200),
          s\<lparr>leave_requests :=
               put_row lr_id (if lr2 = lr0 then lr0 else lr2\<lparr>lr_updated_at := Some (db_now rq)\<rparr>)
                 (leave_requests s)\<rparr>))"
proof -
  define lr2 where "lr2 = lr0\<lparr>lr_status := Some ''rejected'',
                    lr_rejection_reason :=
                      py_or (data ''rejection_reason'') (lr_rejection_reason lr0)\<rparr>"
  have k: "lr_id lr0 = leave_id" using assms(2) by (rule get_row_key)
  have g: "get_row lr_id (lr_id lr2) (leave_requests s) = Some lr0"
    using assms(2) k by (simp add: lr2_def)
  show ?thesis
    using assms commit_leave_only [OF g, of "db_now rq"]
    by (simp add: patch_leave_def finish_def Let_def lr2_def)
qed

lemma patch_leave_approved:
  assumes "fault rq = NoFault" and "get_row lr_id leave_id (leave_requests s) = Some lr0"
  shows "patch_leave rq data ''approved'' leave_id s =
     (let lr2 = lr0\<lparr>lr_status := Some ''approved'', lr_approved_at := Some (utcnow rq),
                    lr_approved_by := user_id (sess rq)\<rparr>
      in (Inr (leave_json lr2, 200),
          s\<lparr>leave_requests :=
               put_row lr_id (if lr2 = lr0 then lr0 else lr2\<lparr>lr_updated_at := Some (db_now rq)\<rparr>)
                 (leave_requests s),
             employees :=
               (case get_row e_id (lr_employee_id lr0) (employees s) of
                  None \<Rightarrow> employees s
                | Some emp \<Rightarrow>
                    put_row e_id
                      (if e_status emp = Some ''on-leave'' then emp
                       else emp\<lparr>e_status := Some ''on-leave'', e_updated_at := Some (db_now rq)\<rparr>)
                      (employees s))\<rparr>))"
proof -
  define lr2 where "lr2 = lr0\<lparr>lr_status := Some ''approved'', lr_approved_at := Some (utcnow rq),
                    lr_approved_by := user_id (sess rq)\<rparr>"
  have k: "lr_id lr0 = leave_id" using assms(2) by (rule get_row_key)
  have g: "get_row lr_id (lr_id lr2) (leave_requests s) = Some lr0"
    using assms(2) k by (simp add: lr2_def)
  show ?thesis
  proof (cases "get_row e_id (lr_employee_id lr0) (employees s)")
    case None
    then show ?thesis
      using assms commit_leave_only [OF g, of "db_now rq"]
      by (simp add: patch_leave_def finish_def Let_def lr2_def)
  next
    case (Some emp)
    have ke: "e_id emp = lr_employee_id lr0" using Some by (rule get_row_key)
    have ge: "get_row e_id (e_id (emp\<lparr>e_status := Some ''on-leave''\<rparr>)) (employees s) = Some emp"
      using Some ke by simp
    have eq: "(emp\<lparr>e_status := Some ''on-leave''\<rparr> = emp) = (e_status emp = Some ''on-leave'')"
      by (cases emp) auto
    show ?thesis
      using assms Some commit_leave_employee [OF g ge, of "db_now rq"] eq
      by (simp add: patch_leave_def finish_def Let_def lr2_def)
  qed
qed


subsection \<open>Validation and the effect of a decision\<close>

lemma truthy_Some: "truthy (Some v) = (v \<noteq> [])"
  by (simp add: truthy_def)

lemma request_data_dict: "request_data rq k = Some v \<Longrightarrow> data_is_dict rq"
  by (auto simp: request_data_def data_is_dict_def split: option.splits json_body.splits)

lemma leave_detail_valid:
  assumes "req_method rq \<noteq> GET" and "request_data rq ''status'' = Some v"
    and "py_lower (py_strip v) \<in> set allowed_statuses"
  shows "leave_detail rq leave_id s =
         patch_leave rq (request_data rq) (py_lower (py_strip v)) leave_id s"
  using assms strip_lower_nonempty [OF assms(3)] request_data_dict [OF assms(2)]
  by (simp add: leave_detail_def Let_def truthy_Some py_str_def)

lemma leave_detail_invalid:
  assumes "req_method rq \<noteq> GET" and "data_is_dict rq"
    and "\<not> spec_decision_allowed (request_data rq ''status'')"
  shows "leave_detail rq leave_id s = (Inr invalid_status, s)"
  using assms
  by (cases "request_data rq ''status''")
     (simp_all add: leave_detail_def Let_def truthy_def py_str_def spec_decision_allowed_def
        allowed_statuses_def)

lemma leave_detail_not_dict:
  assumes "req_method rq \<noteq> GET" and "\<not> data_is_dict rq"
  shows "leave_detail rq leave_id s = (Inl (AttributeError ''get''), s)"
  using assms by (simp add: leave_detail_def)

lemma leave_detail_cases:
  obtains (get) "req_method rq = GET"
  | (not_dict) "req_method rq \<noteq> GET" "\<not> data_is_dict rq"
  | (invalid) "req_method rq \<noteq> GET" "data_is_dict rq"
      "\<not> spec_decision_allowed (request_data rq ''status'')"
  | (valid) v where "req_method rq \<noteq> GET" "request_data rq ''status'' = Some v"
      "py_lower (py_strip v) \<in> set allowed_statuses"
proof (cases "spec_decision_allowed (request_data rq ''status'')")
  case True
  then obtain v where "request_data rq ''status'' = Some v"
    "py_lower (py_strip v) \<in> set allowed_statuses"
    by (auto simp: spec_decision_allowed_def allowed_statuses_def split: option.splits)
  then show ?thesis using get valid by blast
next
  case False
  then show ?thesis using get not_dict invalid by blast
qed

lemma patch_leave_balances:
  "leave_balances (snd (patch_leave rq data status leave_id s)) = leave_balances s"
  by (simp add: patch_leave_def finish_def db_error_def commit_def Let_def
      split: option.splits)

lemma leave_detail_balances:
  "leave_balances (snd (leave_detail rq leave_id s)) = leave_balances s"
proof (cases rq rule: leave_detail_cases)
  case get
  then show ?thesis by (simp add: leave_detail_def)
next
  case not_dict
  then show ?thesis by (simp add: leave_detail_not_dict)
next
  case invalid
  then show ?thesis by (simp add: leave_detail_invalid)
next
  case (valid v)
  then show ?thesis by (simp add: leave_detail_valid patch_leave_balances)
qed

lemma run_leave_detail_balances:
  "leave_balances (run_leave_detail calls s) = leave_balances s"
  by (induction calls s rule: run_leave_detail.induct) (simp_all add: leave_detail_balances)


lemma row_after_put:
  assumes "get_row lr_id leave_id rows = Some lr0" and "lr_id lr2 = lr_id lr0"
  shows "get_row lr_id leave_id (put_row lr_id (if lr2 = lr0 then lr0 else lr2\<lparr>lr_updated_at := t\<rparr>) rows)
         = Some (if lr2 = lr0 then lr0 else lr2\<lparr>lr_updated_at := t\<rparr>)"
proof -
  have "lr_id lr0 = leave_id" using assms(1) by (rule get_row_key)
  then have "lr_id (if lr2 = lr0 then lr0 else lr2\<lparr>lr_updated_at := t\<rparr>) = leave_id"
    using assms(2) by simp
  with assms(1) show ?thesis by (rule get_row_put_row)
qed

lemma stamped_field:
  assumes "f (lr2\<lparr>lr_updated_at := t\<rparr>) = f lr2"
  shows "f (if lr2 = lr0 then lr0 else lr2\<lparr>lr_updated_at := t\<rparr>) = f lr2"
  using assms by auto

lemma approved_row:
  assumes "fault rq = NoFault" and "get_row lr_id leave_id (leave_requests s) = Some lr0"
  shows "\<exists>lr'. get_row lr_id leave_id (leave_requests (snd (patch_leave rq data ''approved'' leave_id s))) = Some lr'
     \<and> lr_status lr' = Some ''approved'' \<and> lr_approved_by lr' = user_id (sess rq) \<and> lr_approved_at lr' = Some (utcnow rq)"
proof -
  define lr2 where "lr2 = lr0\<lparr>lr_status := Some ''approved'', lr_approved_at := Some (utcnow rq),
                    lr_approved_by := user_id (sess rq)\<rparr>"
  define lr3 where "lr3 = (if lr2 = lr0 then lr0 else lr2\<lparr>lr_updated_at := Some (db_now rq)\<rparr>)"
  have "lr_id lr2 = lr_id lr0" by (simp add: lr2_def)
  from row_after_put [OF assms(2) this]
  have g: "get_row lr_id leave_id (put_row lr_id lr3 (leave_requests s)) = Some lr3"
    by (simp add: lr3_def)
  have "leave_requests (snd (patch_leave rq data ''approved'' leave_id s)) = put_row lr_id lr3 (leave_requests s)"
    using patch_leave_approved [OF assms, of data] by (simp add: Let_def lr2_def lr3_def)
  moreover have "lr_status lr3 = Some ''approved''" "lr_approved_by lr3 = user_id (sess rq)"
    "lr_approved_at lr3 = Some (utcnow rq)"
    unfolding lr3_def by (rule trans [OF stamped_field], simp, simp add: lr2_def)+
  ultimately show ?thesis using g by simp
qed

lemma leave_detail_valid_fst:
  assumes "req_method rq \<noteq> GET" and "request_data rq ''status'' = Some v"
    and "py_lower (py_strip v) \<in> set allowed_statuses"
  shows "fst (leave_detail rq leave_id s) =
         fst (patch_leave rq (request_data rq) (py_lower (py_strip v)) leave_id s)"
  by (simp add: leave_detail_valid [OF assms])

lemma leave_detail_valid_snd:
  assumes "req_method rq \<noteq> GET" and "request_data rq ''status'' = Some v"
    and "py_lower (py_strip v) \<in> set allowed_statuses"
  shows "snd (leave_detail rq leave_id s) =
         snd (patch_leave rq (request_data rq) (py_lower (py_strip v)) leave_id s)"
  by (simp add: leave_detail_valid [OF assms])

lemma status_code_Inr: "status_code (Inr r) = Some (snd r)"
  by (cases r) (simp add: status_code_def)

lemma approved_code:
  assumes "fault rq = NoFault" and "get_row lr_id leave_id (leave_requests s) = Some lr0"
  shows "status_code (fst (patch_leave rq data ''approved'' leave_id s)) = Some 200"
  using patch_leave_approved [OF assms, of data] by (simp add: Let_def status_code_Inr)

lemma approved_employee:
  assumes "fault rq = NoFault" and "get_row lr_id leave_id (leave_requests s) = Some lr0"
  shows "map_option e_status
           (get_row e_id (lr_employee_id lr0)
              (employees (snd (patch_leave rq data ''approved'' leave_id s)))) =
         map_option (\<lambda>e. Some ''on-leave'') (get_row e_id (lr_employee_id lr0) (employees s))"
proof (cases "get_row e_id (lr_employee_id lr0) (employees s)")
  case None
  then show ?thesis using patch_leave_approved [OF assms, of data] by (simp add: Let_def)
next
  case (Some emp)
  define emp' where "emp' = (if e_status emp = Some ''on-leave'' then emp
       else emp\<lparr>e_status := Some ''on-leave'', e_updated_at := Some (db_now rq)\<rparr>)"
  have k: "e_id emp = lr_employee_id lr0" using Some by (rule get_row_key)
  have "e_id emp' = lr_employee_id lr0" using k by (simp add: emp'_def)
  with Some have "get_row e_id (lr_employee_id lr0) (put_row e_id emp' (employees s)) = Some emp'"
    by (rule get_row_put_row)
  moreover have "e_status emp' = Some ''on-leave''" by (simp add: emp'_def)
  moreover have "employees (snd (patch_leave rq data ''approved'' leave_id s)) =
      put_row e_id emp' (employees s)"
    using Some patch_leave_approved [OF assms, of data] by (simp add: Let_def emp'_def)
  ultimately show ?thesis using Some by simp
qed

lemma rejected_code:
  assumes "fault rq = NoFault" and "get_row lr_id leave_id (leave_requests s) = Some lr0"
  shows "status_code (fst (patch_leave rq data ''rejected'' leave_id s)) = Some 200"
  using patch_leave_rejected [OF assms, of data] by (simp add: Let_def status_code_Inr)

lemma rejected_row:
  assumes "fault rq = NoFault" and "get_row lr_id leave_id (leave_requests s) = Some lr0"
  shows "\<exists>lr'. get_row lr_id leave_id
                 (leave_requests (snd (patch_leave rq data ''rejected'' leave_id s))) = Some lr' \<and>
     lr_status lr' = Some ''rejected'' \<and>
     lr_rejection_reason lr' = py_or (data ''rejection_reason'') (lr_rejection_reason lr0)"
proof -
  define lr2 where "lr2 = lr0\<lparr>lr_status := Some ''rejected'',
      lr_rejection_reason := py_or (data ''rejection_reason'') (lr_rejection_reason lr0)\<rparr>"
  define lr3 where "lr3 = (if lr2 = lr0 then lr0 else lr2\<lparr>lr_updated_at := Some (db_now rq)\<rparr>)"
  have "lr_id lr2 = lr_id lr0" by (simp add: lr2_def)
  from row_after_put [OF assms(2) this]
  have g: "get_row lr_id leave_id (put_row lr_id lr3 (leave_requests s)) = Some lr3"
    by (simp add: lr3_def)
  have "leave_requests (snd (patch_leave rq data ''rejected'' leave_id s)) =
      put_row lr_id lr3 (leave_requests s)"
    using patch_leave_rejected [OF assms, of data] by (simp add: Let_def lr2_def lr3_def)
  moreover have "lr_status lr3 = Some ''rejected''"
    "lr_rejection_reason lr3 = py_or (data ''rejection_reason'') (lr_rejection_reason lr0)"
    unfolding lr3_def by (rule trans [OF stamped_field], simp, simp add: lr2_def)+
  ultimately show ?thesis using g by simp
qed

lemma rejected_employees:
  assumes "fault rq = NoFault" and "get_row lr_id leave_id (leave_requests s) = Some lr0"
  shows "employees (snd (patch_leave rq data ''rejected'' leave_id s)) = employees s"
  using patch_leave_rejected [OF assms, of data] by (simp add: Let_def)

lemma pending_row:
  assumes "fault rq = NoFault" and "get_row lr_id leave_id (leave_requests s) = Some lr0"
    and "status \<noteq> ''approved''" and "status \<noteq> ''rejected''"
  shows "\<exists>lr'. get_row lr_id leave_id
                 (leave_requests (snd (patch_leave rq data status leave_id s))) = Some lr' \<and>
     lr_status lr' = Some status"
proof -
  define lr2 where "lr2 = lr0\<lparr>lr_status := Some status\<rparr>"
  define lr3 where "lr3 = (if lr2 = lr0 then lr0 else lr2\<lparr>lr_updated_at := Some (db_now rq)\<rparr>)"
  have "lr_id lr2 = lr_id lr0" by (simp add: lr2_def)
  from row_after_put [OF assms(2) this]
  have g: "get_row lr_id leave_id (put_row lr_id lr3 (leave_requests s)) = Some lr3"
    by (simp add: lr3_def)
  have "leave_requests (snd (patch_leave rq data status leave_id s)) =
      put_row lr_id lr3 (leave_requests s)"
    using patch_leave_pending [OF assms, of data] by (simp add: lr2_def lr3_def)
  moreover have "lr_status lr3 = Some status"
    unfolding lr3_def by (rule trans [OF stamped_field], simp, simp add: lr2_def)
  ultimately show ?thesis using g by simp
qed

lemma decided_row:
  assumes "fault rq = NoFault" and "get_row lr_id leave_id (leave_requests s) = Some lr0"
  shows "status_code (fst (patch_leave rq data status leave_id s)) = Some 200 \<and>
    (\<exists>lr'. get_row lr_id leave_id
                 (leave_requests (snd (patch_leave rq data status leave_id s))) = Some lr' \<and>
       lr_status lr' = Some status)"
proof -
  consider "status = ''approved''" | "status = ''rejected''"
    | "status \<noteq> ''approved''" "status \<noteq> ''rejected''"
    by blast
  then show ?thesis
  proof cases
    case 1
    with approved_code [OF assms, of data] approved_row [OF assms, of data] show ?thesis by blast
  next
    case 2
    with rejected_code [OF assms, of data] rejected_row [OF assms, of data] show ?thesis by blast
  next
    case 3
    with patch_leave_pending [OF assms 3, of data] pending_row [OF assms 3, of data]
    show ?thesis by (simp add: status_code_Inr)
  qed
qed

lemma patch_leave_code:
  "fst (patch_leave rq data status leave_id s) \<noteq> Inr invalid_status"
  by (simp add: patch_leave_def finish_def db_error_def invalid_status_def Let_def
      split: option.splits)

lemma patch_leave_not_found:
  assumes "fault rq \<noteq> FailLoadRequest" and "get_row lr_id leave_id (leave_requests s) = None"
  shows "patch_leave rq data status leave_id s =
     (if 2 ^ 63 \<le> leave_id then (Inl OverflowError, s)
      else (Inr (ErrorJ ''Leave request not found'', 404), s))"
  using assms by (simp add: patch_leave_def)

lemma patch_leave_fail_load_request:
  "fault rq = FailLoadRequest \<Longrightarrow> patch_leave rq data status leave_id s = db_error s"
  by (simp add: patch_leave_def)

lemma patch_leave_fail_load_employee:
  "fault rq = FailLoadEmployee \<Longrightarrow> get_row lr_id leave_id (leave_requests s) = Some lr0 \<Longrightarrow>
   patch_leave rq data ''approved'' leave_id s = db_error s"
  by (simp add: patch_leave_def Let_def)

lemma patch_leave_fail_commit:
  "fault rq = FailCommit \<Longrightarrow> get_row lr_id leave_id (leave_requests s) = Some lr0 \<Longrightarrow>
   patch_leave rq data status leave_id s = db_error s"
  by (simp add: patch_leave_def finish_def Let_def split: option.splits)

lemma request_data_fault [simp]: "request_data (rq\<lparr>fault := f\<rparr>) = request_data rq"
  by (simp add: request_data_def)

lemma pending_unchanged_iff:
  "(lr0\<lparr>lr_status := Some st\<rparr> = lr0) = (lr_status lr0 = Some st)"
  by (cases lr0) auto

lemma patch_leave_unchanged:
  "fault rq \<noteq> FailReload \<Longrightarrow>
   status_code (fst (patch_leave rq data status leave_id s)) \<noteq> Some 200 \<Longrightarrow>
   snd (patch_leave rq data status leave_id s) = s"
  by (simp add: patch_leave_def finish_def db_error_def status_code_def Let_def
      split: option.splits if_splits)

lemma patch_leave_fault:
  "snd (patch_leave rq data status leave_id s) = s \<or>
   snd (patch_leave rq data status leave_id s) =
     snd (patch_leave (rq\<lparr>fault := NoFault\<rparr>) data status leave_id s)"
  by (cases "fault rq")
     (simp_all add: patch_leave_def finish_def db_error_def Let_def split: option.splits)

lemma leave_detail_fault:
  "snd (leave_detail rq leave_id s) = s \<or>
   snd (leave_detail rq leave_id s) = snd (leave_detail (rq\<lparr>fault := NoFault\<rparr>) leave_id s)"
proof (cases rq rule: leave_detail_cases)
  case get
  then show ?thesis by (simp add: leave_detail_def)
next
  case not_dict
  then show ?thesis by (simp add: leave_detail_not_dict)
next
  case invalid
  then show ?thesis by (simp add: leave_detail_invalid)
next
  case (valid v)
  have m': "req_method (rq\<lparr>fault := NoFault\<rparr>) \<noteq> GET" using valid(1) by simp
  have v': "request_data (rq\<lparr>fault := NoFault\<rparr>) ''status'' = Some v" using valid(2) by simp
  show ?thesis
    using patch_leave_fault [of rq "request_data rq" "py_lower (py_strip v)" leave_id s]
    unfolding leave_detail_valid_snd [OF valid] leave_detail_valid_snd [OF m' v' valid(3)]
    by simp
qed

lemma leave_detail_unchanged:
  assumes "fault rq \<noteq> FailReload"
    and "status_code (fst (leave_detail rq leave_id s)) \<noteq> Some 200"
  shows "snd (leave_detail rq leave_id s) = s"
proof (cases rq rule: leave_detail_cases)
  case get
  then show ?thesis by (simp add: leave_detail_def)
next
  case not_dict
  then show ?thesis by (simp add: leave_detail_not_dict)
next
  case invalid
  then show ?thesis by (simp add: leave_detail_invalid)
next
  case (valid v)
  show ?thesis
    using assms
    unfolding leave_detail_valid_fst [OF valid] leave_detail_valid_snd [OF valid]
    by (simp add: patch_leave_unchanged)
qed

subsection \<open>Leave balances\<close>

text \<open>
  C1, as the code has it: across any sequence of decisions (calls of \<open>leave_detail\<close>,
  whatever the method, body, session or database fault of each), every \<open>LeaveBalance\<close>
  row stays exactly as it was, since no branch of the handler writes that table. So rows
  that satisfy \<open>balance = total_allocated - used - pending\<close> with \<open>used\<close>, \<open>pending\<close> and
  \<open>balance\<close> not negative before the sequence satisfy it after; a decision does not update
  the counters.
\<close>

theorem balances_across_decisions:
  "leave_balances (run_leave_detail calls s) = leave_balances s \<and>
   (list_all spec_balance_ok (leave_balances s) \<longrightarrow>
    list_all spec_balance_ok (leave_balances (run_leave_detail calls s)))"
  by (simp add: run_leave_detail_balances)

text \<open>The example state keeps its balance row over an approval followed by a rejection.\<close>

theorem balances_across_decisions_witness:
  "list_all spec_balance_ok (leave_balances ex_db) \<and>
   leave_balances (run_leave_detail [(ex_patch ''approved'', 1), (ex_reject, 1)] ex_db) = [ex_lb] \<and>
   list_all spec_balance_ok
     (leave_balances (run_leave_detail [(ex_patch ''approved'', 1), (ex_reject, 1)] ex_db))"
proof -
  have h: "list_all spec_balance_ok (leave_balances ex_db)" by code_simp
  have e: "leave_balances ex_db = [ex_lb]" by (simp add: ex_db_def)
  from balances_across_decisions [of "[(ex_patch ''approved'', 1), (ex_reject, 1)]" ex_db] h e
  show ?thesis by simp
qed

text \<open>
  C1 as stated fails on the example: the request of 3 days is pending, the decision
  succeeds (approved, or rejected), and the balance row of the employee is the row of
  before, which is neither the committed nor the released one.
\<close>

theorem decide_updates_no_counter_counterexample:
  "lr_status ex_lr = Some ''pending'' \<and> lr_total_days ex_lr = 3 \<and>
   status_code (fst (leave_detail (ex_patch ''approved'') 1 ex_db)) = Some 200 \<and>
   leave_balances (snd (leave_detail (ex_patch ''approved'') 1 ex_db)) = [ex_lb] \<and>
   spec_commit 3 ex_lb \<noteq> ex_lb \<and>
   status_code (fst (leave_detail ex_reject 1 ex_db)) = Some 200 \<and>
   leave_balances (snd (leave_detail ex_reject 1 ex_db)) = [ex_lb] \<and>
   spec_release 3 ex_lb \<noteq> ex_lb"
  by code_simp

subsection \<open>Decisions on requests already decided\<close>

text \<open>
  C2, as the code has it: \<open>leave_detail\<close> has no guard on the current status. For a request
  that is already approved or rejected, a further decision with an allowed status value
  and no database fault answers 200 and overwrites the request's status with the value
  supplied (trimmed, in lower case); the leave balances are unchanged.
\<close>

theorem decide_on_terminal_request:
  assumes "req_method rq \<noteq> GET" and "request_data rq ''status'' = Some v"
    and "py_lower (py_strip v) \<in> set allowed_statuses" and "fault rq = NoFault"
    and "get_row lr_id leave_id (leave_requests s) = Some lr0"
    and "lr_status lr0 = Some ''approved'' \<or> lr_status lr0 = Some ''rejected''"
  shows "status_code (fst (leave_detail rq leave_id s)) = Some 200 \<and>
    (\<exists>lr'. get_row lr_id leave_id (leave_requests (snd (leave_detail rq leave_id s))) = Some lr' \<and>
       lr_status lr' = Some (py_lower (py_strip v))) \<and>
    leave_balances (snd (leave_detail rq leave_id s)) = leave_balances s"
  using decided_row [OF assms(4,5), of "request_data rq" "py_lower (py_strip v)"]
    leave_detail_balances [of rq leave_id s]
  unfolding leave_detail_valid_fst [OF assms(1,2,3)] leave_detail_valid_snd [OF assms(1,2,3)]
  by simp

text \<open>The approved request of the example is decided again, as rejected.\<close>

theorem decide_on_terminal_request_witness:
  "req_method (ex_patch ''rejected'') \<noteq> GET \<and>
   request_data (ex_patch ''rejected'') ''status'' = Some ''rejected'' \<and>
   py_lower (py_strip ''rejected'') \<in> set allowed_statuses \<and>
   fault (ex_patch ''rejected'') = NoFault \<and>
   get_row lr_id 1 (leave_requests ex_db_approved) = Some ex_lr_approved \<and>
   lr_status ex_lr_approved = Some ''approved'' \<and>
   status_code (fst (leave_detail (ex_patch ''rejected'') 1 ex_db_approved)) = Some 200 \<and>
   (\<exists>lr'. get_row lr_id 1
            (leave_requests (snd (leave_detail (ex_patch ''rejected'') 1 ex_db_approved))) =
          Some lr' \<and> lr_status lr' = Some ''rejected'') \<and>
   leave_balances (snd (leave_detail (ex_patch ''rejected'') 1 ex_db_approved)) =
     leave_balances ex_db_approved"
proof -
  let ?rq = "ex_patch ''rejected''"
  have h1: "req_method ?rq \<noteq> GET" by code_simp
  have h2: "request_data ?rq ''status'' = Some ''rejected''" by code_simp
  have h3: "py_lower (py_strip ''rejected'') \<in> set allowed_statuses" by code_simp
  have h4: "fault ?rq = NoFault" by code_simp
  have h5: "get_row lr_id 1 (leave_requests ex_db_approved) = Some ex_lr_approved" by code_simp
  have h6: "lr_status ex_lr_approved = Some ''approved''" by code_simp
  have n: "py_lower (py_strip ''rejected'') = ''rejected''" by code_simp
  from decide_on_terminal_request [OF h1 h2 h3 h4 h5 disjI1 [OF h6]] h1 h2 h3 h4 h5 h6 n
  show ?thesis by simp
qed

text \<open>
  C2 as stated fails there: the request is approved, the second decision answers 200
  rather than failing, and the stored request has changed.
\<close>

theorem terminal_request_decided_again_counterexample:
  "lr_status ex_lr_approved = Some ''approved'' \<and>
   get_row lr_id 1 (leave_requests ex_db_approved) = Some ex_lr_approved \<and>
   fst (leave_detail (ex_patch ''rejected'') 1 ex_db_approved) =
     Inr (leave_json (ex_lr_approved\<lparr>lr_status := Some ''rejected''\<rparr>), 200) \<and>
   leave_requests (snd (leave_detail (ex_patch ''rejected'') 1 ex_db_approved)) =
     [ex_lr_approved\<lparr>lr_status := Some ''rejected'', lr_updated_at := Some 1001\<rparr>] \<and>
   snd (leave_detail (ex_patch ''rejected'') 1 ex_db_approved) \<noteq> ex_db_approved"
  by code_simp

subsection \<open>Approval\<close>

text \<open>
  C3, as the code has it: a decision with status approved on an existing request, with no
  database fault, answers 200, sets the request's \<open>status\<close> to approved, \<open>approved_by\<close>
  to the session's user (or \<open>None\<close>) and \<open>approved_at\<close> to the clock's time, and leaves
  every \<open>LeaveBalance\<close> row unchanged: no days move from \<open>pending\<close> to \<open>used\<close>. When the
  request's range holds today, the employee's row, if there is one, has status on-leave
  afterwards.
\<close>

theorem approve_effect:
  assumes "req_method rq \<noteq> GET" and "request_data rq ''status'' = Some v"
    and "py_lower (py_strip v) = ''approved''" and "fault rq = NoFault"
    and "get_row lr_id leave_id (leave_requests s) = Some lr0"
  shows "status_code (fst (leave_detail rq leave_id s)) = Some 200 \<and>
    (\<exists>lr'. get_row lr_id leave_id (leave_requests (snd (leave_detail rq leave_id s))) = Some lr' \<and>
       lr_status lr' = Some ''approved'' \<and> lr_approved_by lr' = user_id (sess rq) \<and>
       lr_approved_at lr' = Some (utcnow rq)) \<and>
    leave_balances (snd (leave_detail rq leave_id s)) = leave_balances s \<and>
    (spec_covers lr0 (today rq) \<longrightarrow>
       map_option e_status
         (get_row e_id (lr_employee_id lr0) (employees (snd (leave_detail rq leave_id s)))) =
       map_option (\<lambda>e. Some ''on-leave'') (get_row e_id (lr_employee_id lr0) (employees s)))"
proof -
  have ok: "py_lower (py_strip v) \<in> set allowed_statuses"
    using assms(3) by (simp add: allowed_statuses_def)
  note f = leave_detail_valid_fst [OF assms(1,2) ok, of leave_id s, unfolded assms(3)]
  note n = leave_detail_valid_snd [OF assms(1,2) ok, of leave_id s, unfolded assms(3)]
  have "status_code (fst (leave_detail rq leave_id s)) = Some 200"
    using approved_code [OF assms(4,5), of "request_data rq"]
    unfolding f by simp
  moreover note approved_row [OF assms(4,5), of "request_data rq", folded n]
    approved_employee [OF assms(4,5), of "request_data rq", folded n]
    leave_detail_balances [of rq leave_id s]
  ultimately show ?thesis by simp
qed

text \<open>The pending request of the example, which holds today, is approved.\<close>

theorem approve_effect_witness:
  "req_method (ex_patch '' Approved '') \<noteq> GET \<and>
   request_data (ex_patch '' Approved '') ''status'' = Some '' Approved '' \<and>
   py_lower (py_strip '' Approved '') = ''approved'' \<and>
   fault (ex_patch '' Approved '') = NoFault \<and>
   get_row lr_id 1 (leave_requests ex_db) = Some ex_lr \<and>
   spec_covers ex_lr (today (ex_patch '' Approved '')) \<and>
   status_code (fst (leave_detail (ex_patch '' Approved '') 1 ex_db)) = Some 200 \<and>
   leave_balances (snd (leave_detail (ex_patch '' Approved '') 1 ex_db)) = leave_balances ex_db \<and>
   map_option e_status
     (get_row e_id 1 (employees (snd (leave_detail (ex_patch '' Approved '') 1 ex_db)))) =
   Some (Some ''on-leave'')"
proof -
  let ?rq = "ex_patch '' Approved ''"
  have h1: "req_method ?rq \<noteq> GET" by code_simp
  have h2: "request_data ?rq ''status'' = Some '' Approved ''" by code_simp
  have h3: "py_lower (py_strip '' Approved '') = ''approved''" by code_simp
  have h4: "fault ?rq = NoFault" by code_simp
  have h5: "get_row lr_id 1 (leave_requests ex_db) = Some ex_lr" by code_simp
  have h6: "spec_covers ex_lr (today ?rq)" by code_simp
  have e: "lr_employee_id ex_lr = 1" by code_simp
  have g: "get_row e_id 1 (employees ex_db) = Some ex_emp" by code_simp
  from approve_effect [OF h1 h2 h3 h4 h5] h1 h2 h3 h4 h5 h6 e g show ?thesis by simp
qed

text \<open>
  C3 as stated fails on the example, approved on 2024-06-03, a week before the request
  starts: the approval succeeds, \<open>pending\<close> is still 3 and \<open>used\<close> still 0 in the
  employee's balance row, and the employee is marked on-leave although the request does
  not hold the day.
\<close>

theorem approve_moves_no_days_counterexample:
  "lr_status ex_lr = Some ''pending'' \<and>
   \<not> spec_covers ex_lr (today (ex_patch ''approved''\<lparr>today := 739040\<rparr>)) \<and>
   status_code (fst (leave_detail (ex_patch ''approved''\<lparr>today := 739040\<rparr>) 1 ex_db)) =
     Some 200 \<and>
   map lb_pending (leave_balances ex_db) = [Some 3] \<and>
   map lb_used (leave_balances ex_db) = [Some 0] \<and>
   map lb_pending
     (leave_balances (snd (leave_detail (ex_patch ''approved''\<lparr>today := 739040\<rparr>) 1 ex_db))) =
     [Some 3] \<and>
   map lb_used
     (leave_balances (snd (leave_detail (ex_patch ''approved''\<lparr>today := 739040\<rparr>) 1 ex_db))) =
     [Some 0] \<and>
   leave_balances (snd (leave_detail (ex_patch ''approved''\<lparr>today := 739040\<rparr>) 1 ex_db)) \<noteq>
     map (spec_commit (lr_total_days ex_lr)) (leave_balances ex_db) \<and>
   map e_status (employees ex_db) = [Some ''active''] \<and>
   map e_status
     (employees (snd (leave_detail (ex_patch ''approved''\<lparr>today := 739040\<rparr>) 1 ex_db))) =
     [Some ''on-leave'']"
  by code_simp

subsection \<open>Rejection\<close>

text \<open>
  C6, as the code has it: a decision with status rejected on an existing request, with no
  database fault, answers 200, sets the request's \<open>status\<close> to rejected and its
  \<open>rejection_reason\<close> to the reason supplied when that is a non-empty string (the stored
  reason is kept otherwise), and leaves every \<open>LeaveBalance\<close> row and every employee
  unchanged: \<open>pending\<close> is not decremented.
\<close>

theorem reject_effect:
  assumes "req_method rq \<noteq> GET" and "request_data rq ''status'' = Some v"
    and "py_lower (py_strip v) = ''rejected''" and "fault rq = NoFault"
    and "get_row lr_id leave_id (leave_requests s) = Some lr0"
  shows "status_code (fst (leave_detail rq leave_id s)) = Some 200 \<and>
    (\<exists>lr'. get_row lr_id leave_id (leave_requests (snd (leave_detail rq leave_id s))) = Some lr' \<and>
       lr_status lr' = Some ''rejected'' \<and>
       lr_rejection_reason lr' =
         py_or (request_data rq ''rejection_reason'') (lr_rejection_reason lr0)) \<and>
    leave_balances (snd (leave_detail rq leave_id s)) = leave_balances s \<and>
    employees (snd (leave_detail rq leave_id s)) = employees s"
proof -
  have ok: "py_lower (py_strip v) \<in> set allowed_statuses"
    using assms(3) by (simp add: allowed_statuses_def)
  note f = leave_detail_valid_fst [OF assms(1,2) ok, of leave_id s, unfolded assms(3)]
  note n = leave_detail_valid_snd [OF assms(1,2) ok, of leave_id s, unfolded assms(3)]
  have "status_code (fst (leave_detail rq leave_id s)) = Some 200"
    using rejected_code [OF assms(4,5), of "request_data rq"]
    unfolding f by simp
  moreover note rejected_row [OF assms(4,5), of "request_data rq", folded n]
    rejected_employees [OF assms(4,5), of "request_data rq", folded n]
    leave_detail_balances [of rq leave_id s]
  ultimately show ?thesis by simp
qed

text \<open>The pending request of the example is rejected with a reason.\<close>

theorem reject_effect_witness:
  "req_method ex_reject \<noteq> GET \<and>
   request_data ex_reject ''status'' = Some ''Rejected'' \<and>
   py_lower (py_strip ''Rejected'') = ''rejected'' \<and>
   fault ex_reject = NoFault \<and>
   get_row lr_id 1 (leave_requests ex_db) = Some ex_lr \<and>
   status_code (fst (leave_detail ex_reject 1 ex_db)) = Some 200 \<and>
   (\<exists>lr'. get_row lr_id 1 (leave_requests (snd (leave_detail ex_reject 1 ex_db))) = Some lr' \<and>
      lr_status lr' = Some ''rejected'' \<and> lr_rejection_reason lr' = Some ''peak season'') \<and>
   leave_balances (snd (leave_detail ex_reject 1 ex_db)) = leave_balances ex_db \<and>
   employees (snd (leave_detail ex_reject 1 ex_db)) = employees ex_db"
proof -
  have h1: "req_method ex_reject \<noteq> GET" by code_simp
  have h2: "request_data ex_reject ''status'' = Some ''Rejected''" by code_simp
  have h3: "py_lower (py_strip ''Rejected'') = ''rejected''" by code_simp
  have h4: "fault ex_reject = NoFault" by code_simp
  have h5: "get_row lr_id 1 (leave_requests ex_db) = Some ex_lr" by code_simp
  have r: "py_or (request_data ex_reject ''rejection_reason'') (lr_rejection_reason ex_lr) =
      Some ''peak season''" by code_simp
  from reject_effect [OF h1 h2 h3 h4 h5] h1 h2 h3 h4 h5 r show ?thesis by simp
qed

text \<open>
  C6 as stated fails on the example: the rejection succeeds and \<open>pending\<close> is still 3,
  where a release of the request's 3 days would leave 0.
\<close>

theorem reject_releases_no_days_counterexample:
  "lr_status ex_lr = Some ''pending'' \<and>
   status_code (fst (leave_detail ex_reject 1 ex_db)) = Some 200 \<and>
   map lb_pending (leave_balances ex_db) = [Some 3] \<and>
   map lb_pending (leave_balances (snd (leave_detail ex_reject 1 ex_db))) = [Some 3] \<and>
   map lb_pending (map (spec_release (lr_total_days ex_lr)) (leave_balances ex_db)) = [Some 0]"
  by code_simp

subsection \<open>Validation, unknown requests and the pending decision\<close>

text \<open>
  C7: for a decision (any call that is not a GET) whose body is a JSON object, or is
  missing or falsy, the answer is the validation error, 400, exactly when the supplied
  status, trimmed and in lower case, is not approved, rejected or pending, and then
  nothing is written. With an allowed status and a request id below \<open>2 ^ 63\<close> that has
  no row (and the lookup itself not failing), the answer is 404 and nothing is written.
  With status pending on an existing request, the call answers 200 and the only change
  is the status write: the request's \<open>status\<close> becomes pending (and \<open>updated_at\<close> the
  database's clock, if the status was another one); no other column, row or table
  changes.

  The handler misses two inputs. A body that is a non-empty array, a non-empty string, a
  number other than 0 or \<open>true\<close> supplies no allowed status, and the call raises
  \<open>AttributeError\<close> instead of answering 400. An id of \<open>2 ^ 63\<close> or more has no row, and
  the call raises \<open>OverflowError\<close> instead of answering 404. Neither writes anything.
\<close>

theorem decide_validation:
  "req_method rq \<noteq> GET \<longrightarrow>
   (\<not> data_is_dict rq \<longrightarrow> leave_detail rq leave_id s = (Inl (AttributeError ''get''), s)) \<and>
   (data_is_dict rq \<longrightarrow>
      ((fst (leave_detail rq leave_id s) = Inr invalid_status) =
         (\<not> spec_decision_allowed (request_data rq ''status''))) \<and>
      (\<not> spec_decision_allowed (request_data rq ''status'') \<longrightarrow>
         snd (leave_detail rq leave_id s) = s)) \<and>
   (spec_decision_allowed (request_data rq ''status'') \<and> fault rq \<noteq> FailLoadRequest \<and>
    get_row lr_id leave_id (leave_requests s) = None \<longrightarrow>
      leave_detail rq leave_id s =
        (if 2 ^ 63 \<le> leave_id then (Inl OverflowError, s)
         else (Inr (ErrorJ ''Leave request not found'', 404), s))) \<and>
   (request_data rq ''status'' = Some v \<and> py_lower (py_strip v) = ''pending'' \<and>
    fault rq = NoFault \<and> get_row lr_id leave_id (leave_requests s) = Some lr0 \<longrightarrow>
      leave_detail rq leave_id s =
        (Inr (leave_json (lr0\<lparr>lr_status := Some ''pending''\<rparr>), 200),
         s\<lparr>leave_requests :=
              put_row lr_id
                (if lr_status lr0 = Some ''pending'' then lr0
                 else lr0\<lparr>lr_status := Some ''pending'', lr_updated_at := Some (db_now rq)\<rparr>)
                (leave_requests s)\<rparr>))"
proof (intro impI conjI)
  assume "req_method rq \<noteq> GET" and "\<not> data_is_dict rq"
  then show "leave_detail rq leave_id s = (Inl (AttributeError ''get''), s)"
    by (rule leave_detail_not_dict)
next
  assume m: "req_method rq \<noteq> GET" and d: "data_is_dict rq"
  show "(fst (leave_detail rq leave_id s) = Inr invalid_status) =
      (\<not> spec_decision_allowed (request_data rq ''status''))"
  proof (cases "spec_decision_allowed (request_data rq ''status'')")
    case True
    then obtain x where x: "request_data rq ''status'' = Some x"
      and ok: "py_lower (py_strip x) \<in> set allowed_statuses"
      by (auto simp: spec_decision_allowed_def allowed_statuses_def split: option.splits)
    have "fst (leave_detail rq leave_id s) \<noteq> Inr invalid_status"
      unfolding leave_detail_valid_fst [OF m x ok] by (rule patch_leave_code)
    with True show ?thesis by simp
  next
    case False
    with leave_detail_invalid [OF m d False, of leave_id s] show ?thesis by simp
  qed
next
  assume m: "req_method rq \<noteq> GET" and d: "data_is_dict rq"
    and "\<not> spec_decision_allowed (request_data rq ''status'')"
  then show "snd (leave_detail rq leave_id s) = s"
    using leave_detail_invalid [of rq leave_id s] by simp
next
  assume m: "req_method rq \<noteq> GET"
    and a: "spec_decision_allowed (request_data rq ''status'') \<and> fault rq \<noteq> FailLoadRequest \<and>
      get_row lr_id leave_id (leave_requests s) = None"
  then obtain x where x: "request_data rq ''status'' = Some x"
    and ok: "py_lower (py_strip x) \<in> set allowed_statuses"
    by (auto simp: spec_decision_allowed_def allowed_statuses_def split: option.splits)
  from a have "fault rq \<noteq> FailLoadRequest"
    and "get_row lr_id leave_id (leave_requests s) = None" by simp_all
  from patch_leave_not_found [OF this]
  show "leave_detail rq leave_id s =
        (if 2 ^ 63 \<le> leave_id then (Inl OverflowError, s)
         else (Inr (ErrorJ ''Leave request not found'', 404), s))"
    unfolding leave_detail_valid [OF m x ok] by simp
next
  assume m: "req_method rq \<noteq> GET"
    and a: "request_data rq ''status'' = Some v \<and> py_lower (py_strip v) = ''pending'' \<and>
      fault rq = NoFault \<and> get_row lr_id leave_id (leave_requests s) = Some lr0"
  then have v: "request_data rq ''status'' = Some v" and p: "py_lower (py_strip v) = ''pending''"
    and f: "fault rq = NoFault" and g: "get_row lr_id leave_id (leave_requests s) = Some lr0"
    by simp_all
  have ok: "py_lower (py_strip v) \<in> set allowed_statuses"
    using p by (simp add: allowed_statuses_def)
  have "patch_leave rq (request_data rq) ''pending'' leave_id s =
     (Inr (leave_json (lr0\<lparr>lr_status := Some ''pending''\<rparr>), 200),
      s\<lparr>leave_requests :=
           put_row lr_id
             (if lr_status lr0 = Some ''pending'' then lr0
              else lr0\<lparr>lr_status := Some ''pending'', lr_updated_at := Some (db_now rq)\<rparr>)
             (leave_requests s)\<rparr>)"
    using patch_leave_pending [OF f g, of "''pending''" "request_data rq"]
    by (simp add: pending_unchanged_iff)
  then show "leave_detail rq leave_id s =
        (Inr (leave_json (lr0\<lparr>lr_status := Some ''pending''\<rparr>), 200),
         s\<lparr>leave_requests :=
              put_row lr_id
                (if lr_status lr0 = Some ''pending'' then lr0
                 else lr0\<lparr>lr_status := Some ''pending'', lr_updated_at := Some (db_now rq)\<rparr>)
                (leave_requests s)\<rparr>)"
    unfolding leave_detail_valid [OF m v ok] p by simp
qed

text \<open>
  An unknown status value, an unknown request id, and the approved request of the example
  set back to pending; then the two inputs the handler misses: the body \<open>[1]\<close>, and the
  id \<open>2 ^ 63\<close> with an allowed status.
\<close>

theorem decide_validation_witness:
  "req_method (ex_patch ''cancelled'') \<noteq> GET \<and> data_is_dict (ex_patch ''cancelled'') \<and>
   \<not> spec_decision_allowed (request_data (ex_patch ''cancelled'') ''status'') \<and>
   leave_detail (ex_patch ''cancelled'') 1 ex_db = (Inr invalid_status, ex_db) \<and>
   spec_decision_allowed (request_data (ex_patch ''approved'') ''status'') \<and>
   get_row lr_id 2 (leave_requests ex_db) = None \<and>
   leave_detail (ex_patch ''approved'') 2 ex_db =
     (Inr (ErrorJ ''Leave request not found'', 404), ex_db) \<and>
   request_data (ex_patch '' PENDING'') ''status'' = Some '' PENDING'' \<and>
   py_lower (py_strip '' PENDING'') = ''pending'' \<and>
   get_row lr_id 1 (leave_requests ex_db_approved) = Some ex_lr_approved \<and>
   leave_detail (ex_patch '' PENDING'') 1 ex_db_approved =
     (Inr (leave_json (ex_lr_approved\<lparr>lr_status := Some ''pending''\<rparr>), 200),
      ex_db_approved\<lparr>leave_requests :=
         [ex_lr_approved\<lparr>lr_status := Some ''pending'', lr_updated_at := Some 1001\<rparr>]\<rparr>) \<and>
   req_method ex_array_body \<noteq> GET \<and> \<not> data_is_dict ex_array_body \<and>
   \<not> spec_decision_allowed (request_data ex_array_body ''status'') \<and>
   leave_detail ex_array_body 1 ex_db = (Inl (AttributeError ''get''), ex_db) \<and>
   get_row lr_id 9223372036854775808 (leave_requests ex_db) = None \<and>
   leave_detail (ex_patch ''approved'') 9223372036854775808 ex_db = (Inl OverflowError, ex_db)"
proof -
  have m: "\<And>x. req_method (ex_patch x) \<noteq> GET" "\<And>x. fault (ex_patch x) = NoFault"
    "\<And>x. db_now (ex_patch x) = 1001" "\<And>x. data_is_dict (ex_patch x)"
    by (simp_all add: ex_patch_def ex_get_def data_is_dict_def)
  have a1: "\<not> spec_decision_allowed (request_data (ex_patch ''cancelled'') ''status'')"
    by code_simp
  have b1: "spec_decision_allowed (request_data (ex_patch ''approved'') ''status'')"
    by code_simp
  have b2: "get_row lr_id 2 (leave_requests ex_db) = None" by code_simp
  have c1: "request_data (ex_patch '' PENDING'') ''status'' = Some '' PENDING''" by code_simp
  have c2: "py_lower (py_strip '' PENDING'') = ''pending''" by code_simp
  have c3: "get_row lr_id 1 (leave_requests ex_db_approved) = Some ex_lr_approved" by code_simp
  have c4: "lr_status ex_lr_approved \<noteq> Some ''pending''" by code_simp
  have c5: "put_row lr_id
      (ex_lr_approved\<lparr>lr_status := Some ''pending'', lr_updated_at := Some 1001\<rparr>)
      (leave_requests ex_db_approved) =
      [ex_lr_approved\<lparr>lr_status := Some ''pending'', lr_updated_at := Some 1001\<rparr>]"
    by code_simp
  have d1: "req_method ex_array_body \<noteq> GET" by code_simp
  have d2: "\<not> data_is_dict ex_array_body" by code_simp
  have d3: "\<not> spec_decision_allowed (request_data ex_array_body ''status'')" by code_simp
  have e1: "get_row lr_id 9223372036854775808 (leave_requests ex_db) = None" by code_simp
  have A: "fst (leave_detail (ex_patch ''cancelled'') 1 ex_db) = Inr invalid_status"
    "snd (leave_detail (ex_patch ''cancelled'') 1 ex_db) = ex_db"
    using decide_validation [of "ex_patch ''cancelled''" 1 ex_db] m a1 by simp_all
  have B: "leave_detail (ex_patch ''approved'') 2 ex_db =
     (Inr (ErrorJ ''Leave request not found'', 404), ex_db)"
    using decide_validation [of "ex_patch ''approved''" 2 ex_db] m b1 b2 by simp
  have C: "leave_detail (ex_patch '' PENDING'') 1 ex_db_approved =
     (Inr (leave_json (ex_lr_approved\<lparr>lr_status := Some ''pending''\<rparr>), 200),
      ex_db_approved\<lparr>leave_requests :=
         [ex_lr_approved\<lparr>lr_status := Some ''pending'', lr_updated_at := Some 1001\<rparr>]\<rparr>)"
    using decide_validation [of "ex_patch '' PENDING''" 1 ex_db_approved "'' PENDING''"
        ex_lr_approved] m c1 c2 c3 c4 c5 by simp
  have D: "leave_detail ex_array_body 1 ex_db = (Inl (AttributeError ''get''), ex_db)"
    using decide_validation [of ex_array_body 1 ex_db] d1 d2 by simp
  have E: "leave_detail (ex_patch ''approved'') 9223372036854775808 ex_db =
      (Inl OverflowError, ex_db)"
    using decide_validation [of "ex_patch ''approved''" 9223372036854775808 ex_db] m b1 e1
    by simp
  from A have A': "leave_detail (ex_patch ''cancelled'') 1 ex_db = (Inr invalid_status, ex_db)"
    by (simp add: prod_eq_iff)
  from m(1) m(4) a1 A' b1 b2 B c1 c2 c3 C d1 d2 d3 D e1 E show ?thesis by blast
qed

subsection \<open>Database errors\<close>

text \<open>
  C9: a call of \<open>leave_detail\<close> with a database error is all or nothing. Whatever call
  fails, the state left is either the state the call started from or the state the same
  request leaves without the error: no state with the request updated and the employee
  not, or the reverse, is left behind. An error that is reached inside the transaction
  (loading the request, loading the employee on approval, or the commit) is answered
  with 500 and the starting state. Unless the error comes after the commit, every answer
  other than 200 leaves the state unchanged.
\<close>

theorem decide_all_or_nothing:
  "(snd (leave_detail rq leave_id s) = s \<or>
    snd (leave_detail rq leave_id s) = snd (leave_detail (rq\<lparr>fault := NoFault\<rparr>) leave_id s)) \<and>
   (fault rq \<noteq> FailReload \<and> status_code (fst (leave_detail rq leave_id s)) \<noteq> Some 200 \<longrightarrow>
      snd (leave_detail rq leave_id s) = s) \<and>
   (req_method rq \<noteq> GET \<and> request_data rq ''status'' = Some v \<and>
    py_lower (py_strip v) \<in> set allowed_statuses \<and>
    (fault rq = FailLoadRequest \<or>
     fault rq = FailLoadEmployee \<and> py_lower (py_strip v) = ''approved'' \<and>
       get_row lr_id leave_id (leave_requests s) \<noteq> None \<or>
     fault rq = FailCommit \<and> get_row lr_id leave_id (leave_requests s) \<noteq> None) \<longrightarrow>
      leave_detail rq leave_id s = (Inr (ErrorJ ''Database error'', 500), s))"
proof (intro conjI impI)
  show "snd (leave_detail rq leave_id s) = s \<or>
    snd (leave_detail rq leave_id s) = snd (leave_detail (rq\<lparr>fault := NoFault\<rparr>) leave_id s)"
    by (rule leave_detail_fault)
next
  assume "fault rq \<noteq> FailReload \<and> status_code (fst (leave_detail rq leave_id s)) \<noteq> Some 200"
  then show "snd (leave_detail rq leave_id s) = s" by (simp add: leave_detail_unchanged)
next
  assume a: "req_method rq \<noteq> GET \<and> request_data rq ''status'' = Some v \<and>
    py_lower (py_strip v) \<in> set allowed_statuses \<and>
    (fault rq = FailLoadRequest \<or>
     fault rq = FailLoadEmployee \<and> py_lower (py_strip v) = ''approved'' \<and>
       get_row lr_id leave_id (leave_requests s) \<noteq> None \<or>
     fault rq = FailCommit \<and> get_row lr_id leave_id (leave_requests s) \<noteq> None)"
  then have m: "req_method rq \<noteq> GET" and v: "request_data rq ''status'' = Some v"
    and ok: "py_lower (py_strip v) \<in> set allowed_statuses" by simp_all
  have "patch_leave rq (request_data rq) (py_lower (py_strip v)) leave_id s = db_error s"
    using a patch_leave_fail_load_request patch_leave_fail_load_employee patch_leave_fail_commit
    by (metis not_Some_eq)
  then show "leave_detail rq leave_id s = (Inr (ErrorJ ''Database error'', 500), s)"
    unfolding leave_detail_valid [OF m v ok] by (simp add: db_error_def)
qed

text \<open>
  The approval of the example with an error at each of the three calls: 500 and the
  starting state, where the approval without error answers 200 and changes the state.
\<close>

theorem decide_all_or_nothing_witness:
  "req_method (ex_patch ''approved'') \<noteq> GET \<and>
   request_data (ex_patch ''approved''\<lparr>fault := FailCommit\<rparr>) ''status'' = Some ''approved'' \<and>
   py_lower (py_strip ''approved'') \<in> set allowed_statuses \<and>
   get_row lr_id 1 (leave_requests ex_db) \<noteq> None \<and>
   leave_detail (ex_patch ''approved''\<lparr>fault := FailCommit\<rparr>) 1 ex_db =
     (Inr (ErrorJ ''Database error'', 500), ex_db) \<and>
   leave_detail (ex_patch ''approved''\<lparr>fault := FailLoadEmployee\<rparr>) 1 ex_db =
     (Inr (ErrorJ ''Database error'', 500), ex_db) \<and>
   leave_detail (ex_patch ''approved''\<lparr>fault := FailLoadRequest\<rparr>) 1 ex_db =
     (Inr (ErrorJ ''Database error'', 500), ex_db) \<and>
   status_code (fst (leave_detail (ex_patch ''approved'') 1 ex_db)) = Some 200 \<and>
   snd (leave_detail (ex_patch ''approved'') 1 ex_db) \<noteq> ex_db"
proof -
  let ?rq = "ex_patch ''approved''"
  have h1: "req_method ?rq \<noteq> GET" by code_simp
  have h2: "request_data ?rq ''status'' = Some ''approved''" by code_simp
  have h3: "py_lower (py_strip ''approved'') \<in> set allowed_statuses" by code_simp
  have h4: "py_lower (py_strip ''approved'') = ''approved''" by code_simp
  have h5: "get_row lr_id 1 (leave_requests ex_db) \<noteq> None" by code_simp
  have h6: "status_code (fst (leave_detail ?rq 1 ex_db)) = Some 200" by code_simp
  have h7: "snd (leave_detail ?rq 1 ex_db) \<noteq> ex_db" by code_simp
  from decide_all_or_nothing [of "?rq\<lparr>fault := FailCommit\<rparr>" 1 ex_db "''approved''"]
    decide_all_or_nothing [of "?rq\<lparr>fault := FailLoadEmployee\<rparr>" 1 ex_db "''approved''"]
    decide_all_or_nothing [of "?rq\<lparr>fault := FailLoadRequest\<rparr>" 1 ex_db "''approved''"]
    h1 h2 h3 h4 h5 h6 h7
  show ?thesis by simp
qed

subsection \<open>Status reconciliation on listing\<close>

lemma on_leave_ids_iff: "(eid \<in> on_leave_ids d lrs) = spec_is_on_leave d lrs eid"
  by (auto simp: on_leave_ids_def spec_is_on_leave_def spec_covers_def)

lemma reconcile_row_fst:
  "fst (reconcile_row ids e) = e\<lparr>e_status := spec_reconcile (e_id e \<in> ids) (e_status e)\<rparr>"
  by (simp add: reconcile_row_def spec_reconcile_def)

lemma status_update_same: "(e\<lparr>e_status := st\<rparr> = e) = (st = e_status e)"
  by (cases e) auto

lemma reconcile_row_assigned:
  "fst (snd (reconcile_row ids e)) = (spec_reconcile (e_id e \<in> ids) (e_status e) \<noteq> e_status e)"
  by (auto simp: reconcile_row_def spec_reconcile_def)

lemma employees_loop_eq:
  "employees_loop ids es out to_update =
     (out @ map (\<lambda>e. \<lparr>ev_pk = e_id e, ev_id = e_employee_code e,
                       ev_status = snd (snd (reconcile_row ids e))\<rparr>) es,
      map (\<lambda>e. fst (reconcile_row ids e)) es,
      to_update \<or> (\<exists>e \<in> set es. fst (snd (reconcile_row ids e))))"
proof (induction es arbitrary: out to_update)
  case Nil
  show ?case by simp
next
  case (Cons e es)
  obtain e' a st where r: "reconcile_row ids e = (e', a, st)" by (cases "reconcile_row ids e")
  show ?case by (simp add: r Cons.IH)
qed

lemma flush_rows_map:
  "flush_rows stamp rows (map f rows) = map (\<lambda>r. if f r = r then r else stamp (f r)) rows"
  by (induction rows) (simp_all add: flush_rows_def)

lemma list_employees_effect:
  assumes "hr_required (sess rq)"
  shows "snd (list_employees rq s) =
     s\<lparr>employees :=
         map (\<lambda>e. if spec_reconcile (e_id e \<in> on_leave_ids (today rq) (leave_requests s))
                        (e_status e) = e_status e
                   then e
                   else e\<lparr>e_status :=
                            spec_reconcile (e_id e \<in> on_leave_ids (today rq) (leave_requests s))
                              (e_status e),
                          e_updated_at := Some (db_now rq)\<rparr>)
           (employees s)\<rparr>"
proof -
  let ?ids = "on_leave_ids (today rq) (leave_requests s)"
  let ?g = "\<lambda>e. if spec_reconcile (e_id e \<in> ?ids) (e_status e) = e_status e then e
        else e\<lparr>e_status := spec_reconcile (e_id e \<in> ?ids) (e_status e),
               e_updated_at := Some (db_now rq)\<rparr>"
  show ?thesis
  proof (cases "\<exists>e \<in> set (employees s). fst (snd (reconcile_row ?ids e))")
    case True
    then show ?thesis
      using assms
      by (simp add: list_employees_def employees_loop_eq commit_def flush_rows_map
          flush_rows_same reconcile_row_fst status_update_same cong: if_cong)
  next
    case False
    then have "\<forall>e \<in> set (employees s). ?g e = e"
      by (simp add: reconcile_row_assigned)
    then have "map ?g (employees s) = employees s" by (simp add: map_idI)
    with False show ?thesis
      using assms by (simp add: list_employees_def employees_loop_eq)
  qed
qed

lemma spec_reconcile_idem: "spec_reconcile b (spec_reconcile b st) = spec_reconcile b st"
  by (simp add: spec_reconcile_def)

lemma reconciled_rows_stable:
  assumes "hr_required (sess rq)"
  shows "\<forall>e \<in> set (employees (snd (list_employees rq s))).
     spec_reconcile (e_id e \<in> on_leave_ids (today rq) (leave_requests (snd (list_employees rq s))))
       (e_status e) = e_status e"
  unfolding list_employees_effect [OF assms]
  by (auto simp: spec_reconcile_idem)

text \<open>
  C4, as the code has it: an authorised listing leaves every employee with the status the
  specification's \<open>reconcile\<close> gives: on-leave when an approved request of the employee
  holds today and the status was not on-leave already, whatever it was (inactive and
  terminated included); active when no such request exists and the status was on-leave;
  and the status it had otherwise, so that inactive, terminated and any other value stay
  when no approved request holds today. A row whose status does not change is not
  written; a row that changes also gets \<open>updated_at\<close>; no other table changes.
\<close>

theorem reconcile_on_listing:
  "hr_required (sess rq) \<longrightarrow>
   snd (list_employees rq s) =
     s\<lparr>employees :=
         map (\<lambda>e. if spec_reconcile (spec_is_on_leave (today rq) (leave_requests s) (e_id e))
                        (e_status e) = e_status e
                   then e
                   else e\<lparr>e_status :=
                            spec_reconcile (spec_is_on_leave (today rq) (leave_requests s) (e_id e))
                              (e_status e),
                          e_updated_at := Some (db_now rq)\<rparr>)
           (employees s)\<rparr> \<and>
   map e_status (employees (snd (list_employees rq s))) =
     map (\<lambda>e. spec_reconcile (spec_is_on_leave (today rq) (leave_requests s) (e_id e)) (e_status e))
       (employees s)"
proof
  assume h: "hr_required (sess rq)"
  note eff = list_employees_effect [OF h, of s, unfolded on_leave_ids_iff]
  have "map e_status (employees (snd (list_employees rq s))) =
     map (\<lambda>e. spec_reconcile (spec_is_on_leave (today rq) (leave_requests s) (e_id e)) (e_status e))
       (employees s)"
    unfolding eff by simp
  with eff show "snd (list_employees rq s) =
     s\<lparr>employees :=
         map (\<lambda>e. if spec_reconcile (spec_is_on_leave (today rq) (leave_requests s) (e_id e))
                        (e_status e) = e_status e
                   then e
                   else e\<lparr>e_status :=
                            spec_reconcile (spec_is_on_leave (today rq) (leave_requests s) (e_id e))
                              (e_status e),
                          e_updated_at := Some (db_now rq)\<rparr>)
           (employees s)\<rparr> \<and>
   map e_status (employees (snd (list_employees rq s))) =
     map (\<lambda>e. spec_reconcile (spec_is_on_leave (today rq) (leave_requests s) (e_id e)) (e_status e))
       (employees s)" by simp
qed

text \<open>
  Three employees on 2024-06-11: active with an approved request that holds the day,
  on-leave with no request, and inactive with no request.
\<close>

theorem reconcile_on_listing_witness:
  "hr_required (sess ex_get) \<and>
   map e_status (employees ex_staff) = [Some ''active'', Some ''on-leave'', Some ''inactive''] \<and>
   map e_status (employees (snd (list_employees ex_get ex_staff))) =
     [Some ''on-leave'', Some ''active'', Some ''inactive''] \<and>
   map e_updated_at (employees (snd (list_employees ex_get ex_staff))) =
     [Some 1001, Some 1001, None]"
proof -
  have h: "hr_required (sess ex_get)" by code_simp
  have a: "map e_status (employees ex_staff) = [Some ''active'', Some ''on-leave'', Some ''inactive'']"
    by code_simp
  have b: "map (\<lambda>e. spec_reconcile (spec_is_on_leave (today ex_get) (leave_requests ex_staff) (e_id e))
                (e_status e)) (employees ex_staff) =
      [Some ''on-leave'', Some ''active'', Some ''inactive'']"
    by code_simp
  have c: "map e_updated_at (employees (snd (list_employees ex_get ex_staff))) =
     [Some 1001, Some 1001, None]" by code_simp
  from reconcile_on_listing [of ex_get ex_staff] h
  have "map e_status (employees (snd (list_employees ex_get ex_staff))) =
      map (\<lambda>e. spec_reconcile (spec_is_on_leave (today ex_get) (leave_requests ex_staff) (e_id e))
             (e_status e)) (employees ex_staff)"
    by blast
  then have "map e_status (employees (snd (list_employees ex_get ex_staff))) =
      [Some ''on-leave'', Some ''active'', Some ''inactive'']"
    by (rule trans) (rule b)
  with h a c show ?thesis by blast
qed

text \<open>
  C4 as stated fails for a terminated employee whose approved request holds today: the
  listing overwrites terminated with on-leave, and a listing after the request has ended
  (2024-06-13) leaves the employee active.
\<close>

theorem listing_overwrites_terminated_counterexample:
  "hr_required (sess ex_get) \<and>
   map e_status (employees ex_terminated) = [Some ''terminated''] \<and>
   spec_is_on_leave (today ex_get) (leave_requests ex_terminated) 1 \<and>
   map e_status (employees (snd (list_employees ex_get ex_terminated))) = [Some ''on-leave''] \<and>
   map e_status
     (employees (snd (list_employees (ex_get\<lparr>today := 739050\<rparr>)
        (snd (list_employees ex_get ex_terminated))))) = [Some ''active'']"
  by code_simp

text \<open>
  C5: after an authorised listing, a second listing on the same day (by any session, at
  any later clock time), with the leave requests as the first one left them, changes
  nothing: its loop ends with \<open>to_update\<close> false, so it does not commit, and the state,
  \<open>Employee.status\<close> included, is the state after the first listing.
\<close>

theorem reconcile_twice:
  "hr_required (sess rq) \<and> today rq' = today rq \<longrightarrow>
   snd (list_employees rq' (snd (list_employees rq s))) = snd (list_employees rq s) \<and>
   \<not> snd (snd (employees_loop
                (on_leave_ids (today rq') (leave_requests (snd (list_employees rq s))))
                (employees (snd (list_employees rq s))) [] False))"
proof
  assume a: "hr_required (sess rq) \<and> today rq' = today rq"
  then have h: "hr_required (sess rq)" and t: "today rq' = today rq" by simp_all
  let ?s = "snd (list_employees rq s)"
  note st = reconciled_rows_stable [OF h, of s, folded t]
  have flag: "\<not> snd (snd (employees_loop (on_leave_ids (today rq') (leave_requests ?s))
      (employees ?s) [] False))"
    using st by (simp add: employees_loop_eq reconcile_row_assigned)
  have "snd (list_employees rq' ?s) = ?s"
  proof (cases "hr_required (sess rq')")
    case True
    have "map (\<lambda>e. if spec_reconcile (e_id e \<in> on_leave_ids (today rq') (leave_requests ?s))
                        (e_status e) = e_status e
                   then e
                   else e\<lparr>e_status :=
                            spec_reconcile (e_id e \<in> on_leave_ids (today rq') (leave_requests ?s))
                              (e_status e),
                          e_updated_at := Some (db_now rq')\<rparr>) (employees ?s) = employees ?s"
      using st by (simp add: map_idI)
    then show ?thesis unfolding list_employees_effect [OF True, of ?s] by simp
  next
    case False
    then show ?thesis by (simp add: list_employees_def)
  qed
  with flag show "snd (list_employees rq' ?s) = ?s \<and>
   \<not> snd (snd (employees_loop (on_leave_ids (today rq') (leave_requests ?s))
                (employees ?s) [] False))" by simp
qed

text \<open>The first listing of the three employees changes two rows; the second changes none.\<close>

theorem reconcile_twice_witness:
  "hr_required (sess ex_get) \<and> today (ex_get\<lparr>db_now := 2000\<rparr>) = today ex_get \<and>
   snd (list_employees ex_get ex_staff) \<noteq> ex_staff \<and>
   snd (list_employees (ex_get\<lparr>db_now := 2000\<rparr>) (snd (list_employees ex_get ex_staff))) =
     snd (list_employees ex_get ex_staff)"
proof -
  have h: "hr_required (sess ex_get)" by code_simp
  have t: "today (ex_get\<lparr>db_now := 2000\<rparr>) = today ex_get" by simp
  have n: "snd (list_employees ex_get ex_staff) \<noteq> ex_staff" by code_simp
  from reconcile_twice [of ex_get "ex_get\<lparr>db_now := 2000\<rparr>" ex_staff] h t n
  show ?thesis by simp
qed

text \<open>
  The approval path and the listing disagree outside the request's range: approving, on
  2024-06-03, the request for 2024-06-10 to 2024-06-12 marks the employee on-leave, and
  the next listing of that day sets the status back to active.
\<close>

lemma approval_outside_range_then_listing:
  "\<not> spec_covers ex_lr 739040 \<and>
   map e_status
     (employees (snd (leave_detail (ex_patch ''approved''\<lparr>today := 739040\<rparr>) 1 ex_db))) =
     [Some ''on-leave''] \<and>
   map e_status
     (employees (snd (list_employees (ex_get\<lparr>today := 739040\<rparr>)
        (snd (leave_detail (ex_patch ''approved''\<lparr>today := 739040\<rparr>) 1 ex_db))))) =
     [Some ''active'']"
  by code_simp

subsection \<open>Attendance counts\<close>

lemma count_rows_card: "count_rows p rows = card {i. i < length rows \<and> p (rows ! i)}"
  by (simp add: count_rows_def length_filter_conv_card)

lemma spec_rows_since_count:
  "spec_rows_since since eid flag rows =
     count_rows (\<lambda>a. a_employee_id a = eid \<and> a_date a \<ge> since \<and> flag a = Some True) rows"
  by (simp add: spec_rows_since_def count_rows_card)

lemma spec_rows_in_window_count:
  "spec_rows_in_window lo hi eid flag rows =
     count_rows (\<lambda>a. a_employee_id a = eid \<and> lo \<le> a_date a \<and> a_date a \<le> hi \<and>
                     flag a = Some True) rows"
  by (simp add: spec_rows_in_window_def count_rows_card)

lemma attendance_loop_eq:
  "attendance_loop since s records out =
     out @ List.map_filter
       (\<lambda>r. case get_row e_id (a_employee_id r) (employees s) of
               None \<Rightarrow> None
             | Some emp \<Rightarrow>
                 Some \<lparr>av_id = e_employee_code emp, av_status = a_status r,
                       av_lateArrivals = spec_rows_since since (e_id emp) a_is_late (attendance s),
                       av_earlyLeaves =
                         spec_rows_since since (e_id emp) a_is_early_leave (attendance s)\<rparr>)
       records"
proof (induction records arbitrary: out)
  case Nil
  show ?case by (simp add: map_filter_simps)
next
  case (Cons r records)
  show ?case
    by (cases "get_row e_id (a_employee_id r) (employees s)")
       (simp_all add: Cons.IH map_filter_simps spec_rows_since_count Let_def)
qed

text \<open>
  C8, as the code has it: an authorised attendance view has one entry for each attendance
  row of today whose employee exists, and its late-arrival and early-leave counts are the
  numbers of attendance rows of that employee dated \<open>today - 365\<close> or later whose
  \<open>is_late\<close> (respectively \<open>is_early_leave\<close>) flag is true. The query has no upper bound
  on the date. The view returns the state it was given.
\<close>

theorem attendance_counts:
  "hr_required (sess rq) \<longrightarrow>
   get_attendance rq s =
     ((AttendanceJ
         (List.map_filter
            (\<lambda>r. case get_row e_id (a_employee_id r) (employees s) of
                    None \<Rightarrow> None
                  | Some emp \<Rightarrow>
                      Some \<lparr>av_id = e_employee_code emp, av_status = a_status r,
                            av_lateArrivals =
                              spec_rows_since (today rq - 365) (e_id emp) a_is_late (attendance s),
                            av_earlyLeaves =
                              spec_rows_since (today rq - 365) (e_id emp) a_is_early_leave
                                (attendance s)\<rparr>)
            (filter (\<lambda>a. a_date a = today rq) (attendance s))), 200), s)"
  by (simp add: get_attendance_def attendance_loop_eq Let_def)

text \<open>The employee of the example, with a row of today and a row dated tomorrow.\<close>

theorem attendance_counts_witness:
  "hr_required (sess ex_get) \<and>
   get_attendance ex_get ex_attendance =
     ((AttendanceJ
         [\<lparr>av_id = ''EMP001'', av_status = ''present'',
           av_lateArrivals = spec_rows_since (739048 - 365) 1 a_is_late (attendance ex_attendance),
           av_earlyLeaves =
             spec_rows_since (739048 - 365) 1 a_is_early_leave (attendance ex_attendance)\<rparr>],
       200), ex_attendance) \<and>
   spec_rows_since (739048 - 365) 1 a_is_late (attendance ex_attendance) = 1"
proof -
  have h: "hr_required (sess ex_get)" by code_simp
  have t: "today ex_get = 739048" by code_simp
  have f: "filter (\<lambda>a. a_date a = 739048) (attendance ex_attendance) =
      [\<lparr>a_id = 1, a_employee_id = 1, a_date = 739048, a_status = ''present'',
        a_is_late = Some False, a_is_early_leave = Some False\<rparr>]" by code_simp
  have g: "get_row e_id 1 (employees ex_attendance) = Some ex_emp" by code_simp
  have e: "e_employee_code ex_emp = ''EMP001''" "e_id ex_emp = 1" by code_simp+
  have c: "count_rows (\<lambda>a. a_employee_id a = 1 \<and> a_date a \<ge> 739048 - 365 \<and> a_is_late a = Some True)
      (attendance ex_attendance) = 1" by code_simp
  from attendance_counts [of ex_get ex_attendance] h t f g e c
  show ?thesis by (simp add: map_filter_simps spec_rows_since_count)
qed

text \<open>
  C8 as stated fails there: the row dated tomorrow is late and leaves early, so the view
  reports 1 and 1, while no row dated within the 365 days up to today has either flag.
\<close>

theorem attendance_counts_future_row_counterexample:
  "hr_required (sess ex_get) \<and> today ex_get = 739048 \<and>
   map a_date (attendance ex_attendance) = [739048, 739049] \<and>
   get_attendance ex_get ex_attendance =
     ((AttendanceJ [\<lparr>av_id = ''EMP001'', av_status = ''present'', av_lateArrivals = 1,
                     av_earlyLeaves = 1\<rparr>], 200), ex_attendance) \<and>
   spec_rows_in_window (739048 - 365) 739048 1 a_is_late (attendance ex_attendance) = 0 \<and>
   spec_rows_in_window (739048 - 365) 739048 1 a_is_early_leave (attendance ex_attendance) = 0"
  unfolding spec_rows_in_window_count by code_simp

subsection \<open>The GET branch\<close>

text \<open>
  C10: for every request id and every database state, the GET branch of \<open>leave_detail\<close>
  never returns a leave request: it raises \<open>NameError\<close> for the unbound name \<open>text\<close>,
  and nothing is written.
\<close>

theorem leave_detail_get_raises:
  "leave_detail (rq\<lparr>req_method := GET\<rparr>) leave_id s = (Inl (NameError ''text''), s)"
  by (simp add: leave_detail_def)

theorem leave_detail_get_raises_witness:
  "leave_detail ex_get 1 ex_db = (Inl (NameError ''text''), ex_db)"
  using leave_detail_get_raises [of ex_get 1 ex_db] by (simp add: ex_get_def)

end
